theory Spec2Isabelle
  imports Complex_Main
begin

section \<open>Data frames and the files behind them\<close>

text \<open>
  The record store keeps every entity in a CSV file that is read and written through
  pandas. A cell of a frame is an integer, a text or a hole (pandas' NaN for a missing
  value); a row gives a cell for every column label (NaN outside the frame's columns); a
  frame is its column labels and its rows, in order.

  A file is named by its name under the data directory. The entity files are only ever
  read by \<open>read_csv\<close> and written by \<open>to_csv\<close>, so a file is modelled by the
  frame \<open>read_csv\<close> returns for it: writing a frame and reading it back yields that frame.
  The audit log and the share registry are only ever opened as text; they are modelled by
  their characters.
\<close>

datatype cell = IntC int | StrC string | NaN

type_synonym row = "string \<Rightarrow> cell"

record frame =
  columns :: "string list"
  rows :: "row list"

datatype text_file = Absent | Locked | Text string

record fsys =
  frames :: "string \<Rightarrow> frame option"
  texts :: "string \<Rightarrow> text_file"

datatype error = KeyError | ValueError | FileNotFoundError | PermissionError

text \<open>\<open>pd.DataFrame()\<close>: no columns, no rows.\<close>

definition DataFrame :: frame where
  "DataFrame = \<lparr>columns = [], rows = []\<rparr>"

text \<open>\<open>df.empty\<close>: one of the two axes has length 0.\<close>

definition df_empty :: "frame \<Rightarrow> bool" where
  "df_empty df = (columns df = [] \<or> rows df = [])"

text \<open>
  Elementwise \<open>==\<close> of a column with a scalar: integers compare by value, texts by
  their characters, a hole is equal to nothing, and an integer is never equal to a text.
\<close>

fun cell_eq :: "cell \<Rightarrow> cell \<Rightarrow> bool" where
  "cell_eq (IntC a) (IntC b) = (a = b)"
| "cell_eq (StrC a) (StrC b) = (a = b)"
| "cell_eq _ _ = False"

text \<open>\<open>df[df[c] != v]\<close>: KeyError when \<open>c\<close> is no column of the frame.\<close>

definition drop_rows :: "frame \<Rightarrow> string \<Rightarrow> cell \<Rightarrow> error + frame" where
  "drop_rows df c v =
     (if c \<notin> set (columns df) then Inl KeyError
      else Inr (df\<lparr>rows := filter (\<lambda>r. \<not> cell_eq (r c) v) (rows df)\<rparr>))"

text \<open>
  \<open>df.loc[len(df)] = row_dict\<close> on a frame as loaded (its index is 0..len-1): the
  dictionary becomes a row over the frame's columns, with a hole for a column it has no
  key for, and is added at the end. pandas refuses a frame without columns.
\<close>

definition row_of_dict :: "string list \<Rightarrow> (string \<rightharpoonup> cell) \<Rightarrow> row" where
  "row_of_dict cols d =
     (\<lambda>c. if c \<in> set cols then (case d c of Some v \<Rightarrow> v | None \<Rightarrow> NaN) else NaN)"

definition loc_append :: "frame \<Rightarrow> (string \<rightharpoonup> cell) \<Rightarrow> error + frame" where
  "loc_append df d =
     (if columns df = [] then Inl ValueError
      else Inr (df\<lparr>rows := rows df @ [row_of_dict (columns df) d]\<rparr>))"

text \<open>
  \<open>int(df[c].max())\<close>: KeyError without the column; the maximum skips holes, and
  \<open>int\<close> of the hole that is left when there is nothing else raises ValueError. A text
  in the column makes it non-numeric: the conversion of its maximum is taken to raise,
  and no theorem below rests on that case.
\<close>

fun int_cells :: "cell list \<Rightarrow> int list" where
  "int_cells [] = []"
| "int_cells (IntC i # cs) = i # int_cells cs"
| "int_cells (_ # cs) = int_cells cs"

fun is_text :: "cell \<Rightarrow> bool" where
  "is_text (StrC _) = True"
| "is_text _ = False"

definition column_max :: "frame \<Rightarrow> string \<Rightarrow> error + int" where
  "column_max df c =
     (if c \<notin> set (columns df) then Inl KeyError
      else let cs = map (\<lambda>r. r c) (rows df) in
        if list_ex is_text cs then Inl ValueError
        else (case int_cells cs of
                [] \<Rightarrow> Inl ValueError
              | i # is \<Rightarrow> Inr (fold max is i)))"

section \<open>lib/data_store.py\<close>

record CSVStore =
  path :: string
  id_field :: "string option"

definition load_csv :: "string \<Rightarrow> fsys \<Rightarrow> frame" where
  "load_csv p fs = (case frames fs p of Some df \<Rightarrow> df | None \<Rightarrow> DataFrame)"

definition save_csv :: "frame \<Rightarrow> string \<Rightarrow> fsys \<Rightarrow> fsys" where
  "save_csv df p fs = fs\<lparr>frames := (frames fs)(p \<mapsto> df)\<rparr>"

definition load :: "CSVStore \<Rightarrow> fsys \<Rightarrow> frame" where
  "load st fs = (case frames fs (path st) of Some df \<Rightarrow> df | None \<Rightarrow> DataFrame)"

definition save :: "CSVStore \<Rightarrow> frame \<Rightarrow> fsys \<Rightarrow> fsys" where
  "save st df fs = fs\<lparr>frames := (frames fs)(path st \<mapsto> df)\<rparr>"

text \<open>Each operation returns what the method returns and the file system it leaves.\<close>

definition append_row :: "CSVStore \<Rightarrow> (string \<rightharpoonup> cell) \<Rightarrow> fsys \<Rightarrow> error + (frame \<times> fsys)" where
  "append_row st row_dict fs =
     (case loc_append (load st fs) row_dict of
        Inl e \<Rightarrow> Inl e
      | Inr df \<Rightarrow> Inr (df, save st df fs))"

definition delete_by_id :: "CSVStore \<Rightarrow> cell \<Rightarrow> fsys \<Rightarrow> error + (frame \<times> fsys)" where
  "delete_by_id st id_value fs =
     (let df = load st fs in
      case id_field st of
        None \<Rightarrow> Inr (df, fs)
      | Some f \<Rightarrow>
          (case drop_rows df f id_value of
             Inl e \<Rightarrow> Inl e
           | Inr df' \<Rightarrow> Inr (df', save st df' fs)))"

text \<open>\<open>if self.id_field and not df.empty\<close>: None and the empty string are both false.\<close>

definition next_id :: "CSVStore \<Rightarrow> fsys \<Rightarrow> error + int" where
  "next_id st fs =
     (let df = load st fs in
      case id_field st of
        None \<Rightarrow> Inr 1
      | Some f \<Rightarrow>
          if f \<noteq> [] \<and> \<not> df_empty df
          then (case column_max df f of Inl e \<Rightarrow> Inl e | Inr m \<Rightarrow> Inr (m + 1))
          else Inr 1)"


section \<open>Text files, Python strings and numbers\<close>

text \<open>
  Characters are code points below 256. A file opened for reading in text mode has
  universal newlines: carriage return, alone or before a line feed, is read as a line
  feed. Written text is stored as it is (the line separator of the platform being the
  line feed). A file that is \<open>Locked\<close> exists and refuses every \<open>open\<close>.
\<close>

definition LF :: char where "LF = CHR 0x0A"
definition CR :: char where "CR = CHR 0x0D"
definition dq :: char where "dq = CHR 0x22"

fun universal_newlines :: "string \<Rightarrow> string" where
  "universal_newlines [] = []"
| "universal_newlines [c] = (if c = CR then [LF] else [c])"
| "universal_newlines (c # d # cs) =
     (if c = CR \<and> d = LF then LF # universal_newlines cs
      else if c = CR then LF # universal_newlines (d # cs)
      else c # universal_newlines (d # cs))"

definition read_text :: "string \<Rightarrow> fsys \<Rightarrow> error + string" where
  "read_text p fs =
     (case texts fs p of
        Absent \<Rightarrow> Inl FileNotFoundError
      | Locked \<Rightarrow> Inl PermissionError
      | Text s \<Rightarrow> Inr (universal_newlines s))"

definition write_text :: "string \<Rightarrow> string \<Rightarrow> fsys \<Rightarrow> error + fsys" where
  "write_text p s fs =
     (case texts fs p of
        Locked \<Rightarrow> Inl PermissionError
      | _ \<Rightarrow> Inr (fs\<lparr>texts := (texts fs)(p := Text s)\<rparr>))"

definition append_text :: "string \<Rightarrow> string \<Rightarrow> fsys \<Rightarrow> error + fsys" where
  "append_text p s fs =
     (case texts fs p of
        Locked \<Rightarrow> Inl PermissionError
      | Absent \<Rightarrow> Inr (fs\<lparr>texts := (texts fs)(p := Text s)\<rparr>)
      | Text t \<Rightarrow> Inr (fs\<lparr>texts := (texts fs)(p := Text (t @ s))\<rparr>))"

text \<open>\<open>f.readlines()\<close>: the lines of the text as read, each with its line feed.\<close>

fun lines_of :: "string \<Rightarrow> string \<Rightarrow> string list" where
  "lines_of acc [] = (if acc = [] then [] else [rev acc])"
| "lines_of acc (c # cs) =
     (if c = LF then rev (c # acc) # lines_of [] cs else lines_of (c # acc) cs)"

definition readlines :: "string \<Rightarrow> string list" where
  "readlines s = lines_of [] s"






text \<open>\<open>str\<close> of an integer.\<close>

fun str_nat :: "nat \<Rightarrow> string" where
  "str_nat n = (if n < 10 then [char_of (48 + n)] else str_nat (n div 10) @ [char_of (48 + n mod 10)])"

definition str_int :: "int \<Rightarrow> string" where
  "str_int i = (if i < 0 then CHR ''-'' # str_nat (nat (- i)) else str_nat (nat i))"

text \<open>
  A Python float is a finite number, an infinity or not-a-number; the comparisons are
  those of IEEE 754, where every comparison with not-a-number is false. The built-in
  \<open>float\<close>, which reads a text as a float or raises ValueError, is not code of this
  program: the handlers below take it as their first argument, \<open>None\<close> standing for
  ValueError.
\<close>

datatype pyfloat = Fin real | PosInf | NegInf | FNaN

fun fl_le :: "pyfloat \<Rightarrow> pyfloat \<Rightarrow> bool" where
  "fl_le FNaN _ = False"
| "fl_le _ FNaN = False"
| "fl_le NegInf _ = True"
| "fl_le _ PosInf = True"
| "fl_le (Fin a) (Fin b) = (a \<le> b)"
| "fl_le _ _ = False"

definition fl_lt :: "pyfloat \<Rightarrow> pyfloat \<Rightarrow> bool" where
  "fl_lt a b = (fl_le a b \<and> \<not> fl_le b a)"

section \<open>lib/entities.py\<close>

record entity =
  csv :: string
  idf :: string
  fields' :: "string list"
  title :: string
  selects :: "(string \<times> string \<times> string \<times> string) list"

definition ENTITIES :: "string \<Rightarrow> entity option" where
  "ENTITIES = map_of
     [(''users'', \<lparr>csv = ''users.csv'', idf = ''UserID'',
         fields' = [''UserID'', ''Username'', ''PasswordHash'', ''RoleID'', ''Email''],
         title = ''Users'', selects = []\<rparr>),
      (''countries'', \<lparr>csv = ''countries.csv'', idf = ''CountryID'',
         fields' = [''CountryID'', ''CountryName'', ''GDP_BillionUSD'',
                   ''MiningRevenue_BillionUSD'', ''KeyProjects''],
         title = ''Countries'', selects = []\<rparr>),
      (''minerals'', \<lparr>csv = ''minerals.csv'', idf = ''MineralID'',
         fields' = [''MineralID'', ''MineralName'', ''Description'', ''MarketPriceUSD_per_tonne''],
         title = ''Minerals'', selects = []\<rparr>),
      (''sites'', \<lparr>csv = ''sites.csv'', idf = ''SiteID'',
         fields' = [''SiteID'', ''SiteName'', ''CountryID'', ''MineralID'', ''Latitude'',
                   ''Longitude'', ''Production_tonnes''],
         title = ''Sites'',
         selects = [(''CountryID'', ''countries'', ''CountryID'', ''CountryName''),
                    (''MineralID'', ''minerals'', ''MineralID'', ''MineralName'')]\<rparr>),
      (''production'', \<lparr>csv = ''production_stats.csv'', idf = ''StatID'',
         fields' = [''StatID'', ''Year'', ''CountryID'', ''MineralID'', ''Production_tonnes'',
                   ''ExportValue_BillionUSD''],
         title = ''Production Stats'',
         selects = [(''CountryID'', ''countries'', ''CountryID'', ''CountryName''),
                    (''MineralID'', ''minerals'', ''MineralID'', ''MineralName'')]\<rparr>)]"

section \<open>app.py\<close>

text \<open>
  A handler takes the readings of the clock it makes (as the texts \<open>isoformat\<close> and
  \<open>strftime\<close> give), the session, the request and the file system, and returns the
  response and the file system it leaves. An exception that leaves the handler is the
  response \<open>Raise\<close>.
\<close>

datatype http_method = GET | POST

record request =
  meth :: http_method
  form :: "string \<rightharpoonup> string"

record session =
  sess_logged_in :: bool
  sess_username :: "string option"
  sess_role :: "string option"

datatype flash = Flash string string | FlashExc string error string

datatype response =
    Redirect string "flash list"
  | Render string "string list"
  | Raise error

definition AUDIT_LOG :: string where "AUDIT_LOG = ''audit_log.csv''"

definition audit_header :: string where
  "audit_header = ''Timestamp,Username,Action,Path,Details'' @ [LF]"

definition qcq :: string where
  "qcq = [dq, CHR '','', dq]"

subsection \<open>The share registry\<close>





subsection \<open>The audit log\<close>

definition log_event :: "string \<Rightarrow> string \<Rightarrow> string \<Rightarrow> string \<Rightarrow> string \<Rightarrow> fsys \<Rightarrow> error + fsys" where
  "log_event user action route details ts fs =
     append_text AUDIT_LOG
       ([dq] @ ts @ qcq @ user @ qcq @ action @ qcq @ route @ qcq @ details @ [dq, LF]) fs"

text \<open>\<open>session.get('username','admin')\<close>.\<close>

definition session_user :: "session \<Rightarrow> string" where
  "session_user sess = (case sess_username sess of Some u \<Rightarrow> u | None \<Rightarrow> ''admin'')"

text \<open>The decorator \<open>admin_required\<close> around the body of a handler.\<close>

definition admin_required :: "session \<Rightarrow> fsys \<Rightarrow> response \<times> fsys \<Rightarrow> response \<times> fsys" where
  "admin_required sess fs body =
     (if \<not> sess_logged_in sess then (Redirect ''/login'' [], fs)
      else if sess_role sess \<noteq> Some ''Administrator''
        then (Redirect ''/dashboard'' [Flash ''Administrator access required.'' ''danger''], fs)
      else body)"

text \<open>
  \<open>admin_audit_clear\<close>: \<open>stamp\<close> is the \<open>strftime\<close> reading in the name of the backup
  (digits, T and Z, so the name is its own base name), \<open>ts\<close> the reading written into the
  new log, \<open>ts2\<close> the one \<open>log_event\<close> makes. Both files are opened before anything is
  copied; whatever is raised inside the \<open>try\<close> becomes a flashed message.
\<close>

definition backup_name :: "string \<Rightarrow> string" where
  "backup_name stamp = ''audit_log'' @ ''_'' @ stamp @ ''.bak.csv''"

definition cleared_entry :: "string \<Rightarrow> string \<Rightarrow> string \<Rightarrow> string" where
  "cleared_entry ts user backup =
     [dq] @ ts @ qcq @ user @ qcq @ ''audit_cleared'' @ qcq @ ''/admin/audit/clear'' @ qcq
       @ ''Cleared recent audit log and backed up to '' @ backup @ [dq, LF]"

definition admin_audit_clear :: "string \<Rightarrow> string \<Rightarrow> string \<Rightarrow> session \<Rightarrow> fsys \<Rightarrow> response \<times> fsys" where
  "admin_audit_clear stamp ts ts2 sess fs =
     admin_required sess fs
       (let backup = backup_name stamp in
        case read_text AUDIT_LOG fs of
          Inl e \<Rightarrow> (Redirect ''/admin'' [FlashExc ''Failed to clear audit log: '' e ''danger''], fs)
        | Inr content \<Rightarrow>
        (case write_text backup content fs of
          Inl e \<Rightarrow> (Redirect ''/admin'' [FlashExc ''Failed to clear audit log: '' e ''danger''], fs)
        | Inr fs1 \<Rightarrow>
        (case write_text AUDIT_LOG
                (audit_header @ cleared_entry ts (session_user sess) backup) fs1 of
          Inl e \<Rightarrow> (Redirect ''/admin'' [FlashExc ''Failed to clear audit log: '' e ''danger''], fs1)
        | Inr fs2 \<Rightarrow>
        (case log_event (session_user sess) ''audit_clear'' ''/admin/audit/clear''
                (''Backup: '' @ backup) ts2 fs2 of
          Inl e \<Rightarrow> (Redirect ''/admin''
                      [Flash ''Audit log cleared (backup created).'' ''success'',
                       FlashExc ''Failed to clear audit log: '' e ''danger''], fs2)
        | Inr fs3 \<Rightarrow>
            (Redirect ''/admin'' [Flash ''Audit log cleared (backup created).'' ''success''], fs3)))))"

subsection \<open>The generic admin handlers\<close>

text \<open>
  \<open>reload_all_data\<close> reads the six entity files again with \<open>pd.read_csv\<close>, which raises
  when one is missing; the merged views are computed under \<open>try\<close>. The frames it caches
  are no part of the model: what is kept is whether it returns.
\<close>

definition reload_all_data :: "fsys \<Rightarrow> bool" where
  "reload_all_data fs =
     list_all (\<lambda>n. frames fs n \<noteq> None)
       [''users.csv'', ''roles.csv'', ''countries.csv'', ''minerals.csv'', ''sites.csv'',
        ''production_stats.csv'']"

definition form_get :: "(string \<rightharpoonup> string) \<Rightarrow> string \<Rightarrow> string \<Rightarrow> string" where
  "form_get frm k d = (case frm k of Some v \<Rightarrow> v | None \<Rightarrow> d)"

text \<open>
  The validation of a site, as both \<open>admin_entity_add\<close> and \<open>admin_entity_edit\<close> have
  it: three \<open>try\<close> blocks, each adding at most one message.
\<close>

definition latitude_errors :: "(string \<Rightarrow> pyfloat option) \<Rightarrow> (string \<rightharpoonup> string) \<Rightarrow> string list" where
  "latitude_errors to_float frm =
     (case to_float (form_get frm ''Latitude'' []) of
        None \<Rightarrow> [''Latitude must be a valid number'']
      | Some lat \<Rightarrow>
          if \<not> (fl_le (Fin (- 90)) lat \<and> fl_le lat (Fin 90))
          then [''Latitude must be between -90 and 90''] else [])"

definition longitude_errors :: "(string \<Rightarrow> pyfloat option) \<Rightarrow> (string \<rightharpoonup> string) \<Rightarrow> string list" where
  "longitude_errors to_float frm =
     (case to_float (form_get frm ''Longitude'' []) of
        None \<Rightarrow> [''Longitude must be a valid number'']
      | Some lon \<Rightarrow>
          if \<not> (fl_le (Fin (- 180)) lon \<and> fl_le lon (Fin 180))
          then [''Longitude must be between -180 and 180''] else [])"

text \<open>\<open>float(request.form.get('Production_tonnes','0') or 0)\<close>: an empty text is 0.\<close>

definition production_value :: "(string \<Rightarrow> pyfloat option) \<Rightarrow> (string \<rightharpoonup> string) \<Rightarrow> pyfloat option" where
  "production_value to_float frm =
     (let s = form_get frm ''Production_tonnes'' ''0'' in
      if s = [] then Some (Fin 0) else to_float s)"

definition production_errors :: "(string \<Rightarrow> pyfloat option) \<Rightarrow> (string \<rightharpoonup> string) \<Rightarrow> string list" where
  "production_errors to_float frm =
     (case production_value to_float frm of
        None \<Rightarrow> [''Production_tonnes must be a number'']
      | Some prod_val \<Rightarrow>
          if fl_lt prod_val (Fin 0) then [''Production_tonnes must be non-negative''] else [])"

definition site_errors :: "(string \<Rightarrow> pyfloat option) \<Rightarrow> (string \<rightharpoonup> string) \<Rightarrow> string list" where
  "site_errors to_float frm =
     latitude_errors to_float frm @ longitude_errors to_float frm @ production_errors to_float frm"

text \<open>\<open>if cfg['csv']=='sites.csv'\<close>: no other entity is validated.\<close>

definition entity_errors :: "(string \<Rightarrow> pyfloat option) \<Rightarrow> entity \<Rightarrow> (string \<rightharpoonup> string) \<Rightarrow> string list" where
  "entity_errors to_float cfg frm =
     (if csv cfg = ''sites.csv'' then site_errors to_float frm else [])"

text \<open>What follows the write in the three handlers: reload, log, flash, redirect.\<close>

definition after_write :: "string \<Rightarrow> string \<Rightarrow> string \<Rightarrow> string \<Rightarrow> string \<Rightarrow> string \<Rightarrow> session \<Rightarrow> fsys
    \<Rightarrow> response \<times> fsys" where
  "after_write action route details ts flashed target sess fs =
     (if \<not> reload_all_data fs then (Raise FileNotFoundError, fs)
      else (case log_event (session_user sess) action route details ts fs of
              Inl e \<Rightarrow> (Raise e, fs)
            | Inr fs' \<Rightarrow> (Redirect target [Flash flashed ''success''], fs')))"

text \<open>\<open>new_id = int(df[cfg['id']].max())+1 if not df.empty else 1\<close>.\<close>

definition new_id_of :: "frame \<Rightarrow> string \<Rightarrow> error + int" where
  "new_id_of df c =
     (if \<not> df_empty df
      then (case column_max df c of Inl e \<Rightarrow> Inl e | Inr m \<Rightarrow> Inr (m + 1))
      else Inr 1)"

text \<open>The row of an add: the new id under the id field, the submitted text (or the empty
  text) under every other field.\<close>

definition new_row :: "entity \<Rightarrow> int \<Rightarrow> (string \<rightharpoonup> string) \<Rightarrow> (string \<rightharpoonup> cell)" where
  "new_row cfg new_id frm =
     (\<lambda>f. if f \<in> set (fields' cfg)
           then Some (if f = idf cfg then IntC new_id else StrC (form_get frm f []))
           else None)"

definition admin_entity_add ::
    "(string \<Rightarrow> pyfloat option) \<Rightarrow> string \<Rightarrow> session \<Rightarrow> request \<Rightarrow> string \<Rightarrow> fsys \<Rightarrow> response \<times> fsys" where
  "admin_entity_add to_float ts sess req ent fs =
     admin_required sess fs
       (case ENTITIES ent of
          None \<Rightarrow> (Redirect ''/admin'' [Flash ''Unknown entity'' ''warning''], fs)
        | Some cfg \<Rightarrow>
            let df = load_csv (csv cfg) fs in
            if meth req = POST then
              (case new_id_of df (idf cfg) of
                 Inl e \<Rightarrow> (Raise e, fs)
               | Inr new_id \<Rightarrow>
                   let errors = entity_errors to_float cfg (form req) in
                   if errors \<noteq> [] then (Render ''admin_edit_generic.html'' errors, fs)
                   else
                     (case loc_append df (new_row cfg new_id (form req)) of
                        Inl e \<Rightarrow> (Raise e, fs)
                      | Inr df' \<Rightarrow>
                          after_write ''entity_add'' (''/admin/'' @ ent @ ''/add'')
                            (''Added '' @ ent @ '' '' @ str_int new_id) ts ''Added.''
                            (''/admin/'' @ ent) sess (save_csv df' (csv cfg) fs)))
            else (Render ''admin_edit_generic.html'' [], fs))"

text \<open>
  \<open>df[df[c]==v]\<close> and \<open>row.index[0]\<close>: the position of the first row whose cell under
  \<open>c\<close> equals \<open>v\<close>, if there is one.
\<close>

fun first_index :: "string \<Rightarrow> cell \<Rightarrow> row list \<Rightarrow> nat option" where
  "first_index c v [] = None"
| "first_index c v (r # rs) =
     (if cell_eq (r c) v then Some 0 else map_option Suc (first_index c v rs))"

text \<open>\<open>df.at[idx,f] = v\<close>.\<close>

definition at_set :: "frame \<Rightarrow> nat \<Rightarrow> string \<Rightarrow> cell \<Rightarrow> frame" where
  "at_set df idx f v = df\<lparr>rows := (rows df)[idx := ((rows df ! idx)(f := v))]\<rparr>"

text \<open>
  The loop of an edit over \<open>cfg['fields']\<close>: the id field is skipped; for every other
  field the cell is read (KeyError when the frame has no such column) and replaced by the
  submitted text when the form has one.
\<close>

fun edit_fields :: "string list \<Rightarrow> string \<Rightarrow> (string \<rightharpoonup> string) \<Rightarrow> nat \<Rightarrow> frame \<Rightarrow> error + frame" where
  "edit_fields [] c frm idx df = Inr df"
| "edit_fields (f # fs) c frm idx df =
     (if f = c then edit_fields fs c frm idx df
      else if f \<notin> set (columns df) then Inl KeyError
      else edit_fields fs c frm idx
             (at_set df idx f
                (case frm f of Some v \<Rightarrow> StrC v | None \<Rightarrow> (rows df ! idx) f)))"

definition admin_entity_edit ::
    "(string \<Rightarrow> pyfloat option) \<Rightarrow> string \<Rightarrow> session \<Rightarrow> request \<Rightarrow> string \<Rightarrow> int \<Rightarrow> fsys \<Rightarrow> response \<times> fsys" where
  "admin_entity_edit to_float ts sess req ent obj_id fs =
     admin_required sess fs
       (case ENTITIES ent of
          None \<Rightarrow> (Redirect ''/admin'' [Flash ''Unknown entity'' ''warning''], fs)
        | Some cfg \<Rightarrow>
            let df = load_csv (csv cfg) fs in
            if idf cfg \<notin> set (columns df) then (Raise KeyError, fs)
            else
              (case first_index (idf cfg) (IntC obj_id) (rows df) of
                 None \<Rightarrow> (Redirect (''/admin/'' @ ent) [Flash ''Not found'' ''warning''], fs)
               | Some idx \<Rightarrow>
                   if meth req = POST then
                     (case edit_fields (fields' cfg) (idf cfg) (form req) idx df of
                        Inl e \<Rightarrow> (Raise e, fs)
                      | Inr df' \<Rightarrow>
                          let errors = entity_errors to_float cfg (form req) in
                          if errors \<noteq> [] then (Render ''admin_edit_generic.html'' errors, fs)
                          else
                            after_write ''entity_edit''
                              (''/admin/'' @ ent @ ''/edit/'' @ str_int obj_id)
                              (''Edited '' @ ent @ '' '' @ str_int obj_id) ts ''Updated.''
                              (''/admin/'' @ ent) sess (save_csv df' (csv cfg) fs))
                   else (Render ''admin_edit_generic.html'' [], fs)))"

definition admin_entity_delete ::
    "string \<Rightarrow> session \<Rightarrow> string \<Rightarrow> int \<Rightarrow> fsys \<Rightarrow> response \<times> fsys" where
  "admin_entity_delete ts sess ent obj_id fs =
     admin_required sess fs
       (case ENTITIES ent of
          None \<Rightarrow> (Redirect ''/admin'' [Flash ''Unknown entity'' ''warning''], fs)
        | Some cfg \<Rightarrow>
            (case drop_rows (load_csv (csv cfg) fs) (idf cfg) (IntC obj_id) of
               Inl e \<Rightarrow> (Raise e, fs)
             | Inr df \<Rightarrow>
                 after_write ''entity_delete''
                   (''/admin/'' @ ent @ ''/delete/'' @ str_int obj_id)
                   (''Deleted '' @ ent @ '' '' @ str_int obj_id) ts ''Deleted.''
                   (''/admin/'' @ ent) sess (save_csv df (csv cfg) fs)))"

section \<open>The rules of the specification\<close>

text \<open>
  The validator's rules in the words of the specification, for comparison with the code:
  a coordinate must be a (finite) number within its bounds, and the production, which is
  0 when the field is left empty, must be a number that is not negative. A submission
  breaks a rule when a field does not parse or parses to a number outside its bounds.
\<close>

fun outside :: "real \<Rightarrow> real \<Rightarrow> pyfloat \<Rightarrow> bool" where
  "outside lo hi (Fin x) = (x < lo \<or> hi < x)"
| "outside lo hi _ = True"

fun negative :: "pyfloat \<Rightarrow> bool" where
  "negative (Fin x) = (x < 0)"
| "negative NegInf = True"
| "negative _ = False"

definition breaks_site_rule :: "(string \<Rightarrow> pyfloat option) \<Rightarrow> (string \<rightharpoonup> string) \<Rightarrow> bool" where
  "breaks_site_rule to_float frm =
     ((case to_float (form_get frm ''Latitude'' []) of
         None \<Rightarrow> True | Some x \<Rightarrow> outside (- 90) 90 x)
      \<or> (case to_float (form_get frm ''Longitude'' []) of
         None \<Rightarrow> True | Some x \<Rightarrow> outside (- 180) 180 x)
      \<or> (case production_value to_float frm of
         None \<Rightarrow> True | Some x \<Rightarrow> negative x))"





section \<open>Callers and sample data\<close>

text \<open>
  A caller of the store that assigns identifiers the way the data model says (and the way
  \<open>admin_entity_add\<close> does): an append takes \<open>next_id\<close> for the new record's identifier.
  \<open>run_ops\<close> runs a sequence of such appends and of deletes and returns the identifiers
  it assigned, in order, with the file system it leaves.
\<close>

datatype store_op = Append "string \<rightharpoonup> cell" | Delete cell

fun run_ops :: "CSVStore \<Rightarrow> string \<Rightarrow> store_op list \<Rightarrow> fsys \<Rightarrow> error + (int list \<times> fsys)" where
  "run_ops st f [] fs = Inr ([], fs)"
| "run_ops st f (Append d # ops) fs =
     (case next_id st fs of
        Inl e \<Rightarrow> Inl e
      | Inr n \<Rightarrow>
          (case append_row st (d(f \<mapsto> IntC n)) fs of
             Inl e \<Rightarrow> Inl e
           | Inr (df, fs') \<Rightarrow>
               (case run_ops st f ops fs' of
                  Inl e \<Rightarrow> Inl e
                | Inr (ns, fs'') \<Rightarrow> Inr (n # ns, fs''))))"
| "run_ops st f (Delete v # ops) fs =
     (case delete_by_id st v fs of
        Inl e \<Rightarrow> Inl e
      | Inr (df, fs') \<Rightarrow> run_ops st f ops fs')"

text \<open>The store of the countries, as \<open>app.py\<close> constructs it.\<close>

definition countries_store :: CSVStore where
  "countries_store = \<lparr>path = ''countries.csv'', id_field = Some ''CountryID''\<rparr>"

text \<open>A file system with no file at all.\<close>

definition no_files :: fsys where
  "no_files = \<lparr>frames = (\<lambda>p. None), texts = (\<lambda>p. Absent)\<rparr>"

text \<open>
  A file system in which the six entity files exist, each with its header row and no
  record, and the audit log holds its header.
\<close>

definition header_only :: "string list \<Rightarrow> frame" where
  "header_only cols = \<lparr>columns = cols, rows = []\<rparr>"

definition fresh_files :: fsys where
  "fresh_files =
     \<lparr>frames =
        [''users.csv'' \<mapsto> header_only [''UserID'', ''Username'', ''PasswordHash'', ''RoleID'', ''Email''],
         ''roles.csv'' \<mapsto> header_only [''RoleID'', ''RoleName''],
         ''countries.csv'' \<mapsto> header_only [''CountryID'', ''CountryName'', ''GDP_BillionUSD'',
            ''MiningRevenue_BillionUSD'', ''KeyProjects''],
         ''minerals.csv'' \<mapsto> header_only [''MineralID'', ''MineralName'', ''Description'',
            ''MarketPriceUSD_per_tonne''],
         ''sites.csv'' \<mapsto> header_only [''SiteID'', ''SiteName'', ''CountryID'', ''MineralID'',
            ''Latitude'', ''Longitude'', ''Production_tonnes''],
         ''production_stats.csv'' \<mapsto> header_only [''StatID'', ''Year'', ''CountryID'',
            ''MineralID'', ''Production_tonnes'', ''ExportValue_BillionUSD'']],
      texts = (\<lambda>p. Absent)(''audit_log.csv'' := Text audit_header)\<rparr>"

text \<open>A frame with the one column \<open>c\<close> holding the given integers, and a file system
  holding one entity file.\<close>

definition ids_frame :: "string \<Rightarrow> int list \<Rightarrow> frame" where
  "ids_frame c ns = \<lparr>columns = [c], rows = map (\<lambda>n. row_of_dict [c] [c \<mapsto> IntC n]) ns\<rparr>"

definition one_file :: "string \<Rightarrow> frame \<Rightarrow> fsys" where
  "one_file p df = \<lparr>frames = [p \<mapsto> df], texts = (\<lambda>q. Absent)\<rparr>"

text \<open>The entity files of \<open>fresh_files\<close> with two countries stored.\<close>

definition two_countries :: frame where
  "two_countries =
     \<lparr>columns = [''CountryID'', ''CountryName'', ''GDP_BillionUSD'',
                 ''MiningRevenue_BillionUSD'', ''KeyProjects''],
      rows = [(\<lambda>c. NaN)(''CountryID'' := IntC 1, ''CountryName'' := StrC ''Testland'',
                         ''GDP_BillionUSD'' := IntC 10),
              (\<lambda>c. NaN)(''CountryID'' := IntC 2, ''CountryName'' := StrC ''Otherland'',
                         ''GDP_BillionUSD'' := IntC 5)]\<rparr>"

definition country_files :: fsys where
  "country_files = fresh_files\<lparr>frames := (frames fresh_files)(''countries.csv'' \<mapsto> two_countries)\<rparr>"

definition admin_session :: session where
  "admin_session =
     \<lparr>sess_logged_in = True, sess_username = Some ''root'', sess_role = Some ''Administrator''\<rparr>"

text \<open>
  What Python's \<open>float\<close> returns on the texts the examples submit; on every other text
  this function says ValueError, which is what \<open>float\<close> does on the empty text, the only
  other one the examples pass to it.
\<close>

definition float_of_sample :: "string \<Rightarrow> pyfloat option" where
  "float_of_sample s =
     (if s = ''0'' then Some (Fin 0)
      else if s = ''10'' then Some (Fin 10)
      else if s = ''95'' then Some (Fin 95)
      else if s = ''-5'' then Some (Fin (- 5))
      else if s = ''nan'' then Some FNaN
      else None)"


text \<open>
  The audit log after one event was logged to the fresh one, and the file system of
  \<open>fresh_files\<close> with a given text as its audit log.
\<close>

definition login_entry :: string where
  "login_entry = [dq] @ ''2024-12-31T23:59:59'' @ qcq @ ''root'' @ qcq @ ''login'' @ qcq
     @ ''/login'' @ qcq @ ''success'' @ [dq, LF]"

definition with_log :: "string \<Rightarrow> fsys" where
  "with_log s = fresh_files\<lparr>texts := (texts fresh_files)(AUDIT_LOG := Text s)\<rparr>"






text \<open>The entity files of \<open>fresh_files\<close> with one site stored.\<close>

definition one_site :: frame where
  "one_site =
     \<lparr>columns = [''SiteID'', ''SiteName'', ''CountryID'', ''MineralID'', ''Latitude'',
                 ''Longitude'', ''Production_tonnes''],
      rows = [(\<lambda>c. NaN)(''SiteID'' := IntC 1, ''SiteName'' := StrC ''Old pit'',
                         ''CountryID'' := IntC 1, ''MineralID'' := IntC 1,
                         ''Latitude'' := IntC 10, ''Longitude'' := IntC 20,
                         ''Production_tonnes'' := IntC 100)]\<rparr>"

definition site_files :: fsys where
  "site_files = fresh_files\<lparr>frames := (frames fresh_files)(''sites.csv'' \<mapsto> one_site)\<rparr>"

section \<open>Facts about frames\<close>

lemma fold_max_mem: "fold max xs (a::int) \<in> set (a # xs)"
  by (induction xs arbitrary: a) (auto simp: max_def)

lemma fold_max_ge: "x \<in> set (a # xs) \<Longrightarrow> x \<le> fold max xs (a::int)"
proof (induction xs arbitrary: a x)
  case Nil
  then show ?case by simp
next
  case (Cons y ys)
  have "max y a \<le> fold max ys (max y a)"
    using Cons.IH[of "max y a" "max y a"] by simp
  moreover have "x \<in> set ys \<Longrightarrow> x \<le> fold max ys (max y a)"
    using Cons.IH[of x "max y a"] by simp
  ultimately show ?case using Cons.prems by auto
qed

lemma int_cells_mem: "i \<in> set (int_cells cs) \<longleftrightarrow> IntC i \<in> set cs"
  by (induction cs rule: int_cells.induct) auto

lemma cell_in_column: "r \<in> set rs \<Longrightarrow> r c \<in> set (map (\<lambda>r. r c) rs)"
  by (auto simp: image_iff intro!: bexI[of _ r])

lemma column_max_Inr:
  assumes "column_max df c = Inr m"
  shows "(\<exists>r \<in> set (rows df). r c = IntC m) \<and>
         (\<forall>r \<in> set (rows df). \<forall>i. r c = IntC i \<longrightarrow> i \<le> m)"
proof -
  let ?cs = "map (\<lambda>r. r c) (rows df)"
  from assms obtain i "is" where ic: "int_cells ?cs = i # is" and m: "m = fold max is i"
    by (auto simp: column_max_def Let_def split: if_splits list.splits)
  have "m \<in> set (int_cells ?cs)"
    using fold_max_mem[of "is" i] ic m by simp
  then have 1: "\<exists>r \<in> set (rows df). r c = IntC m"
    by (auto simp: int_cells_mem)
  have 2: "\<forall>r \<in> set (rows df). \<forall>j. r c = IntC j \<longrightarrow> j \<le> m"
  proof (intro ballI allI impI)
    fix r j
    assume "r \<in> set (rows df)" "r c = IntC j"
    then have "IntC j \<in> set ?cs"
      using cell_in_column[of r "rows df" c] by simp
    then have "j \<in> set (i # is)"
      using ic int_cells_mem[of j ?cs] by simp
    then show "j \<le> m"
      unfolding m by (rule fold_max_ge)
  qed
  from 1 2 show ?thesis by blast
qed

lemma column_max_total:
  assumes "c \<in> set (columns df)" "rows df \<noteq> []"
    and "\<forall>r \<in> set (rows df). \<exists>i. r c = IntC i"
  shows "\<exists>m. column_max df c = Inr m"
proof -
  let ?cs = "map (\<lambda>r. r c) (rows df)"
  have nt: "\<not> list_ex is_text ?cs"
    using assms(3) by (auto simp: list_ex_iff)
  from assms(2) obtain r where r: "r \<in> set (rows df)"
    by (cases "rows df") auto
  then obtain i where "r c = IntC i"
    using assms(3) by blast
  with r have "IntC i \<in> set ?cs"
    using cell_in_column[of r "rows df" c] by simp
  then have "int_cells ?cs \<noteq> []"
    using int_cells_mem[of i ?cs] by auto
  then obtain j js where "int_cells ?cs = j # js"
    by (cases "int_cells ?cs") auto
  with nt assms(1) show ?thesis
    by (simp add: column_max_def Let_def)
qed

lemma save_same: "frames fs p = Some df \<Longrightarrow> fs\<lparr>frames := (frames fs)(p \<mapsto> df)\<rparr> = fs"
  by (simp add: map_upd_triv)

section \<open>A store without an identifier field\<close>

text \<open>
  C10. When the store was constructed without an identifier field, \<open>delete_by_id\<close>
  returns the loaded collection as it is, for every id value, and leaves the file system
  as it was (no write), and \<open>next_id\<close> returns 1 whatever the collection holds.
\<close>

theorem no_id_field_delete_and_next_id:
  assumes "id_field st = None"
  shows "delete_by_id st v fs = Inr (load st fs, fs) \<and> next_id st fs = Inr 1"
  using assms by (simp add: delete_by_id_def next_id_def)

theorem no_id_field_delete_and_next_id_witness:
  "id_field \<lparr>path = ''sites.csv'', id_field = None\<rparr> = None
   \<and> delete_by_id \<lparr>path = ''sites.csv'', id_field = None\<rparr> (IntC 7)
        (one_file ''sites.csv'' (ids_frame ''SiteID'' [7, 8]))
       = Inr (ids_frame ''SiteID'' [7, 8], one_file ''sites.csv'' (ids_frame ''SiteID'' [7, 8]))
   \<and> next_id \<lparr>path = ''sites.csv'', id_field = None\<rparr>
        (one_file ''sites.csv'' (ids_frame ''SiteID'' [7, 8])) = Inr 1"
  using no_id_field_delete_and_next_id
    [of "\<lparr>path = ''sites.csv'', id_field = None\<rparr>" "IntC 7"
        "one_file ''sites.csv'' (ids_frame ''SiteID'' [7, 8])"]
  by (simp add: load_def one_file_def)

section \<open>Deleting by identifier\<close>

text \<open>
  C2, as the code has it. For a store with an identifier field whose backing file exists
  and has that column, \<open>delete_by_id\<close> keeps, in their order, exactly the records whose
  identifier is not equal to the given value, writes that collection to the backing file
  (and to no other file), so that a load returns it, and returns that collection: the
  frame of the records that remain, not a count.
\<close>

theorem delete_by_id_removes_and_persists:
  assumes "id_field st = Some f" "frames fs (path st) = Some df" "f \<in> set (columns df)"
  shows "delete_by_id st v fs =
           Inr (df\<lparr>rows := filter (\<lambda>r. \<not> cell_eq (r f) v) (rows df)\<rparr>,
                fs\<lparr>frames := (frames fs)(path st \<mapsto>
                      df\<lparr>rows := filter (\<lambda>r. \<not> cell_eq (r f) v) (rows df)\<rparr>)\<rparr>)
         \<and> load st (fs\<lparr>frames := (frames fs)(path st \<mapsto>
                      df\<lparr>rows := filter (\<lambda>r. \<not> cell_eq (r f) v) (rows df)\<rparr>)\<rparr>)
             = df\<lparr>rows := filter (\<lambda>r. \<not> cell_eq (r f) v) (rows df)\<rparr>"
  using assms by (simp add: delete_by_id_def load_def drop_rows_def save_def)

theorem delete_by_id_removes_and_persists_witness:
  "id_field countries_store = Some ''CountryID''
   \<and> frames (one_file ''countries.csv'' (ids_frame ''CountryID'' [1, 2, 1])) (path countries_store)
       = Some (ids_frame ''CountryID'' [1, 2, 1])
   \<and> ''CountryID'' \<in> set (columns (ids_frame ''CountryID'' [1, 2, 1]))
   \<and> delete_by_id countries_store (IntC 1)
        (one_file ''countries.csv'' (ids_frame ''CountryID'' [1, 2, 1]))
       = Inr (ids_frame ''CountryID'' [2], one_file ''countries.csv'' (ids_frame ''CountryID'' [2]))
   \<and> load countries_store (one_file ''countries.csv'' (ids_frame ''CountryID'' [2]))
       = ids_frame ''CountryID'' [2]"
  using delete_by_id_removes_and_persists
    [of countries_store "''CountryID''"
        "one_file ''countries.csv'' (ids_frame ''CountryID'' [1, 2, 1])"
        "ids_frame ''CountryID'' [1, 2, 1]" "IntC 1"]
  by (simp add: countries_store_def one_file_def ids_frame_def row_of_dict_def)

text \<open>
  The claim as written fails twice. With the records 1, 2, 1 stored, deleting 1 removes
  two records and returns the frame that holds the record 2; and over a missing file
  nothing is removed, written or returned: looking up the identifier column in the frame
  without columns that \<open>load\<close> gives raises KeyError.
\<close>

theorem delete_by_id_count_counterexample:
  "delete_by_id countries_store (IntC 1)
      (one_file ''countries.csv'' (ids_frame ''CountryID'' [1, 2, 1]))
     = Inr (ids_frame ''CountryID'' [2], one_file ''countries.csv'' (ids_frame ''CountryID'' [2]))
   \<and> delete_by_id countries_store (IntC 1) no_files = Inl KeyError"
  by (simp add: delete_by_id_def countries_store_def load_def drop_rows_def save_def
      row_of_dict_def no_files_def DataFrame_def one_file_def ids_frame_def)

section \<open>The generic admin handlers: what reaches the files\<close>

lemma after_write_frames:
  "frames (snd (after_write action route details ts flashed target sess fs)) = frames fs"
  by (simp add: after_write_def log_event_def append_text_def
      split: sum.splits text_file.splits)

lemma admin_entity_delete_frames:
  assumes "sess_logged_in sess" "sess_role sess = Some ''Administrator''"
    and "ENTITIES ent = Some cfg" "frames fs (csv cfg) = Some df" "idf cfg \<in> set (columns df)"
  shows "frames (snd (admin_entity_delete ts sess ent obj_id fs)) =
           (frames fs)(csv cfg \<mapsto>
              df\<lparr>rows := filter (\<lambda>r. \<not> cell_eq (r (idf cfg)) (IntC obj_id)) (rows df)\<rparr>)"
  using assms
  by (simp add: admin_entity_delete_def admin_required_def load_csv_def drop_rows_def
      after_write_frames save_csv_def)

text \<open>
  C8, as the code has it. For a store with an identifier field whose backing file exists
  and has that column: after \<open>delete_by_id\<close> a load returns no record whose identifier
  equals the given value, and when no stored record has it, \<open>delete_by_id\<close> returns
  without an error and leaves every file as it was. The handler \<open>admin_entity_delete\<close>,
  run by an administrator on a known entity, leaves the same collection in the entity's
  file.
\<close>

theorem delete_by_id_then_load:
  assumes "id_field st = Some f" "frames fs (path st) = Some df" "f \<in> set (columns df)"
  shows "\<exists>df' fs'. delete_by_id st v fs = Inr (df', fs')
           \<and> (\<forall>r \<in> set (rows (load st fs')). \<not> cell_eq (r f) v)
           \<and> ((\<forall>r \<in> set (rows df). \<not> cell_eq (r f) v) \<longrightarrow> fs' = fs \<and> load st fs' = df)
           \<and> (sess_logged_in sess \<and> sess_role sess = Some ''Administrator''
                \<and> ENTITIES ent = Some cfg \<and> csv cfg = path st \<and> idf cfg = f \<and> v = IntC obj_id
               \<longrightarrow> frames (snd (admin_entity_delete ts sess ent obj_id fs)) = frames fs')"
proof -
  let ?df' = "df\<lparr>rows := filter (\<lambda>r. \<not> cell_eq (r f) v) (rows df)\<rparr>"
  let ?fs' = "fs\<lparr>frames := (frames fs)(path st \<mapsto> ?df')\<rparr>"
  have 1: "delete_by_id st v fs = Inr (?df', ?fs')"
    using assms by (simp add: delete_by_id_def load_def drop_rows_def save_def)
  have 2: "load st ?fs' = ?df'"
    by (simp add: load_def)
  have 3: "\<forall>r \<in> set (rows (load st ?fs')). \<not> cell_eq (r f) v"
    unfolding 2 by simp
  have 4: "(\<forall>r \<in> set (rows df). \<not> cell_eq (r f) v) \<longrightarrow> ?fs' = fs \<and> load st ?fs' = df"
  proof
    assume "\<forall>r \<in> set (rows df). \<not> cell_eq (r f) v"
    then have "filter (\<lambda>r. \<not> cell_eq (r f) v) (rows df) = rows df"
      by (simp add: filter_id_conv)
    then have "?df' = df" by simp
    then show "?fs' = fs \<and> load st ?fs' = df"
      using save_same[OF assms(2)] 2 by simp
  qed
  have 5: "sess_logged_in sess \<and> sess_role sess = Some ''Administrator''
             \<and> ENTITIES ent = Some cfg \<and> csv cfg = path st \<and> idf cfg = f \<and> v = IntC obj_id
           \<longrightarrow> frames (snd (admin_entity_delete ts sess ent obj_id fs)) = frames ?fs'"
    using assms admin_entity_delete_frames[of sess ent cfg fs df ts obj_id] by auto
  from 1 3 4 5 show ?thesis by blast
qed

theorem delete_by_id_then_load_witness:
  "id_field countries_store = Some ''CountryID''
   \<and> frames (one_file ''countries.csv'' (ids_frame ''CountryID'' [1, 2])) (path countries_store)
       = Some (ids_frame ''CountryID'' [1, 2])
   \<and> ''CountryID'' \<in> set (columns (ids_frame ''CountryID'' [1, 2]))
   \<and> (\<exists>df' fs'. delete_by_id countries_store (IntC 3)
          (one_file ''countries.csv'' (ids_frame ''CountryID'' [1, 2])) = Inr (df', fs')
        \<and> fs' = one_file ''countries.csv'' (ids_frame ''CountryID'' [1, 2])
        \<and> load countries_store fs' = ids_frame ''CountryID'' [1, 2])"
proof -
  have h1: "id_field countries_store = Some ''CountryID''"
    by (simp add: countries_store_def)
  have h2: "frames (one_file ''countries.csv'' (ids_frame ''CountryID'' [1, 2]))
              (path countries_store) = Some (ids_frame ''CountryID'' [1, 2])"
    by (simp add: countries_store_def one_file_def)
  have h3: "''CountryID'' \<in> set (columns (ids_frame ''CountryID'' [1, 2]))"
    by (simp add: ids_frame_def)
  have h4: "\<forall>r \<in> set (rows (ids_frame ''CountryID'' [1, 2])). \<not> cell_eq (r ''CountryID'') (IntC 3)"
    by (simp add: ids_frame_def row_of_dict_def)
  from delete_by_id_then_load[OF h1 h2 h3, of "IntC 3"] h4 h1 h2 h3 show ?thesis
    by blast
qed

text \<open>
  The claim as written fails where the backing file is missing: no stored record has the
  identifier, and \<open>delete_by_id\<close> raises KeyError instead of doing nothing.
\<close>

theorem delete_by_id_missing_file_counterexample:
  "delete_by_id countries_store (IntC 1) no_files = Inl KeyError"
  by (simp add: delete_by_id_def countries_store_def load_def drop_rows_def
      no_files_def DataFrame_def)

section \<open>The next identifier\<close>

lemma next_id_nonempty:
  assumes "id_field st = Some f" "f \<noteq> []" "\<not> df_empty (load st fs)"
    and "f \<in> set (columns (load st fs))"
    and "\<forall>r \<in> set (rows (load st fs)). \<exists>i. r f = IntC i"
  shows "\<exists>m. next_id st fs = Inr (m + 1)
           \<and> (\<exists>r \<in> set (rows (load st fs)). r f = IntC m)
           \<and> (\<forall>r \<in> set (rows (load st fs)). \<forall>i. r f = IntC i \<longrightarrow> i \<le> m)"
proof -
  have "rows (load st fs) \<noteq> []"
    using assms(3) by (simp add: df_empty_def)
  from column_max_total[OF assms(4) this assms(5)]
  obtain m where m: "column_max (load st fs) f = Inr m" ..
  have "next_id st fs = Inr (m + 1)"
    using assms(1-3) m by (simp add: next_id_def Let_def)
  with column_max_Inr[OF m] show ?thesis by blast
qed

text \<open>
  C7, as the code has it. For a store with a (non-empty) identifier field whose backing
  file exists, has that column and holds integer identifiers: an append of a record with
  an integer identifier succeeds, and \<open>next_id\<close> called right after it returns a value
  strictly greater than the identifier just appended and than every identifier then
  stored. (Identifiers of records deleted earlier are not remembered.)
\<close>

theorem next_id_after_append_exceeds_stored:
  assumes "id_field st = Some f" "f \<noteq> []" "frames fs (path st) = Some df"
    and "f \<in> set (columns df)"
    and "\<forall>r \<in> set (rows df). \<exists>i. r f = IntC i"
    and "d f = Some (IntC k)"
  shows "\<exists>df' fs' n. append_row st d fs = Inr (df', fs') \<and> next_id st fs' = Inr n
           \<and> k < n
           \<and> (\<forall>r \<in> set (rows (load st fs')). \<forall>i. r f = IntC i \<longrightarrow> i < n)"
proof -
  let ?new = "row_of_dict (columns df) d"
  let ?df' = "df\<lparr>rows := rows df @ [?new]\<rparr>"
  let ?fs' = "fs\<lparr>frames := (frames fs)(path st \<mapsto> ?df')\<rparr>"
  have cols: "columns df \<noteq> []"
    using assms(4) by auto
  have 1: "append_row st d fs = Inr (?df', ?fs')"
    using assms(3) cols by (simp add: append_row_def load_def loc_append_def save_def)
  have ld: "load st ?fs' = ?df'"
    by (simp add: load_def)
  have new: "?new f = IntC k"
    using assms(4,6) by (simp add: row_of_dict_def)
  have a: "\<not> df_empty (load st ?fs')"
    using cols by (simp add: ld df_empty_def)
  have b: "f \<in> set (columns (load st ?fs'))"
    using assms(4) by (simp add: ld)
  have c: "\<forall>r \<in> set (rows (load st ?fs')). \<exists>i. r f = IntC i"
    using assms(5) new by (auto simp: ld)
  from next_id_nonempty[OF assms(1,2) a b c]
  obtain m where m: "next_id st ?fs' = Inr (m + 1)"
    and le: "\<forall>r \<in> set (rows (load st ?fs')). \<forall>i. r f = IntC i \<longrightarrow> i \<le> m"
    by blast
  have "?new \<in> set (rows (load st ?fs'))"
    by (simp add: ld)
  with le new have "k \<le> m" by blast
  then have 2: "k < m + 1" by simp
  have 3: "\<forall>r \<in> set (rows (load st ?fs')). \<forall>i. r f = IntC i \<longrightarrow> i < m + 1"
    using le by fastforce
  from 1 m 2 3 show ?thesis by blast
qed

theorem next_id_after_append_exceeds_stored_witness:
  "id_field countries_store = Some ''CountryID'' \<and> ''CountryID'' \<noteq> []
   \<and> frames (one_file ''countries.csv'' (ids_frame ''CountryID'' [1, 2])) (path countries_store)
       = Some (ids_frame ''CountryID'' [1, 2])
   \<and> ''CountryID'' \<in> set (columns (ids_frame ''CountryID'' [1, 2]))
   \<and> map (\<lambda>r. r ''CountryID'') (rows (ids_frame ''CountryID'' [1, 2])) = [IntC 1, IntC 2]
   \<and> [''CountryID'' \<mapsto> IntC 3] ''CountryID'' = Some (IntC 3)
   \<and> (\<exists>df' fs' n. append_row countries_store [''CountryID'' \<mapsto> IntC 3]
          (one_file ''countries.csv'' (ids_frame ''CountryID'' [1, 2])) = Inr (df', fs')
        \<and> next_id countries_store fs' = Inr n \<and> 3 < n
        \<and> (\<forall>r \<in> set (rows (load countries_store fs')). \<forall>i. r ''CountryID'' = IntC i \<longrightarrow> i < n))"
proof -
  have h1: "id_field countries_store = Some ''CountryID''"
    by (simp add: countries_store_def)
  have h2: "''CountryID'' \<noteq> []"
    by simp
  have h3: "frames (one_file ''countries.csv'' (ids_frame ''CountryID'' [1, 2]))
              (path countries_store) = Some (ids_frame ''CountryID'' [1, 2])"
    by (simp add: countries_store_def one_file_def)
  have h4: "''CountryID'' \<in> set (columns (ids_frame ''CountryID'' [1, 2]))"
    by (simp add: ids_frame_def)
  have h5: "\<forall>r \<in> set (rows (ids_frame ''CountryID'' [1, 2])). \<exists>i. r ''CountryID'' = IntC i"
    by (simp add: ids_frame_def row_of_dict_def)
  have h6: "[''CountryID'' \<mapsto> IntC 3] ''CountryID'' = Some (IntC 3)"
    by simp
  have h7: "map (\<lambda>r. r ''CountryID'') (rows (ids_frame ''CountryID'' [1, 2])) = [IntC 1, IntC 2]"
    by (simp add: ids_frame_def row_of_dict_def)
  from next_id_after_append_exceeds_stored
    [of countries_store "''CountryID''"
        "one_file ''countries.csv'' (ids_frame ''CountryID'' [1, 2])"
        "ids_frame ''CountryID'' [1, 2]" "[''CountryID'' \<mapsto> IntC 3]" 3,
     OF h1 h2 h3 h4 h5 h6] h1 h2 h3 h4 h6 h7
  show ?thesis by blast
qed

text \<open>
  The claim as written fails for an identifier that was deleted. Starting from the empty
  collection, three appends are assigned 1, 2 and 3; after 3 and 2 are deleted the next
  append is assigned 2, and \<open>next_id\<close> right after it returns 3, an identifier that was
  assigned before.
\<close>

theorem next_id_reuses_deleted_counterexample:
  "map_sum id (\<lambda>(ns, fs). (ns, next_id countries_store fs))
     (run_ops countries_store ''CountryID''
        [Append Map.empty, Append Map.empty, Append Map.empty,
         Delete (IntC 3), Delete (IntC 2), Append Map.empty]
        (one_file ''countries.csv'' (ids_frame ''CountryID'' [])))
   = Inr ([1, 2, 3, 2], Inr 3)"
  by (simp add: next_id_def append_row_def delete_by_id_def countries_store_def load_def
      save_def one_file_def ids_frame_def df_empty_def column_max_def loc_append_def
      drop_rows_def row_of_dict_def Let_def)

section \<open>Validation of sites\<close>

lemma outside_iff: "outside lo hi x \<longleftrightarrow> \<not> (fl_le (Fin lo) x \<and> fl_le x (Fin hi))"
  by (cases x) auto

lemma negative_iff: "negative x \<longleftrightarrow> fl_lt x (Fin 0)"
  by (cases x) (auto simp: fl_lt_def)

lemma site_errors_iff: "site_errors to_float frm \<noteq> [] \<longleftrightarrow> breaks_site_rule to_float frm"
  by (simp add: site_errors_def latitude_errors_def longitude_errors_def production_errors_def
      breaks_site_rule_def outside_iff negative_iff split: option.splits)

lemma ENTITIES_sites:
  "ENTITIES ''sites'' = Some cfg \<Longrightarrow> csv cfg = ''sites.csv''"
  by (auto simp: ENTITIES_def)

lemma ENTITIES_production:
  "ENTITIES ''production'' = Some cfg \<Longrightarrow> csv cfg \<noteq> ''sites.csv''"
  by (auto simp: ENTITIES_def)

lemma ENTITIES_sites_defined: "\<exists>cfg. ENTITIES ''sites'' = Some cfg"
  by (simp add: ENTITIES_def)

lemma admin_entity_add_rejected:
  assumes "ENTITIES ent = Some cfg" "entity_errors to_float cfg (form req) \<noteq> []"
  shows "snd (admin_entity_add to_float ts sess req ent fs) = fs"
    and "fst (admin_entity_add to_float ts sess req ent fs) \<noteq>
           Redirect (''/admin/'' @ ent) [Flash ''Added.'' ''success'']"
  using assms
  by (auto simp: admin_entity_add_def admin_required_def Let_def split: sum.splits)

lemma admin_entity_edit_rejected:
  assumes "ENTITIES ent = Some cfg" "entity_errors to_float cfg (form req) \<noteq> []"
  shows "snd (admin_entity_edit to_float ts sess req ent obj_id fs) = fs"
    and "fst (admin_entity_edit to_float ts sess req ent obj_id fs) \<noteq>
           Redirect (''/admin/'' @ ent) [Flash ''Updated.'' ''success'']"
  using assms
  by (auto simp: admin_entity_edit_def admin_required_def Let_def
      split: sum.splits option.splits)

lemma admin_entity_add_errors_shown:
  assumes "sess_logged_in sess" "sess_role sess = Some ''Administrator''"
    and "ENTITIES ent = Some cfg" "meth req = POST"
    and "new_id_of (load_csv (csv cfg) fs) (idf cfg) = Inr n"
    and "entity_errors to_float cfg (form req) \<noteq> []"
  shows "admin_entity_add to_float ts sess req ent fs =
           (Render ''admin_edit_generic.html'' (entity_errors to_float cfg (form req)), fs)"
  using assms by (simp add: admin_entity_add_def admin_required_def Let_def)

lemma production_not_validated:
  "admin_entity_add to_float ts sess req ''production'' fs =
     admin_entity_add (\<lambda>s. None) ts sess req ''production'' fs"
  "admin_entity_edit to_float ts sess req ''production'' obj_id fs =
     admin_entity_edit (\<lambda>s. None) ts sess req ''production'' obj_id fs"
  by (simp_all add: admin_entity_add_def admin_entity_edit_def ENTITIES_def entity_errors_def
      Let_def cong: sum.case_cong option.case_cong if_cong)

text \<open>
  C1, as the code has it. The validator runs on every add and every edit of a Site
  before anything is persisted: when the submitted Latitude or Longitude does not parse
  or lies outside [-90, 90] or [-180, 180], or the submitted Production_tonnes (0 when
  left empty) does not parse or is negative, the handler leaves every file as it was and
  does not answer with the redirect of an accepted write. Writes of a ProductionStat are
  not validated: what the handlers do with one does not depend on how any field parses.
\<close>

theorem site_writes_validated_before_persisting:
  assumes "breaks_site_rule to_float (form req)"
  shows "snd (admin_entity_add to_float ts sess req ''sites'' fs) = fs
       \<and> fst (admin_entity_add to_float ts sess req ''sites'' fs) \<noteq>
           Redirect ''/admin/sites'' [Flash ''Added.'' ''success'']
       \<and> snd (admin_entity_edit to_float ts sess req ''sites'' obj_id fs) = fs
       \<and> fst (admin_entity_edit to_float ts sess req ''sites'' obj_id fs) \<noteq>
           Redirect ''/admin/sites'' [Flash ''Updated.'' ''success'']
       \<and> admin_entity_add to_float ts sess req ''production'' fs =
           admin_entity_add (\<lambda>s. None) ts sess req ''production'' fs
       \<and> admin_entity_edit to_float ts sess req ''production'' obj_id fs =
           admin_entity_edit (\<lambda>s. None) ts sess req ''production'' obj_id fs"
proof -
  obtain cfg where cfg: "ENTITIES ''sites'' = Some cfg"
    using ENTITIES_sites_defined by blast
  have "entity_errors to_float cfg (form req) \<noteq> []"
    using assms ENTITIES_sites[OF cfg] by (simp add: entity_errors_def site_errors_iff)
  from admin_entity_add_rejected[OF cfg this, of ts sess fs]
       admin_entity_edit_rejected[OF cfg this, of ts sess obj_id fs]
       production_not_validated
  show ?thesis by simp
qed

theorem site_writes_validated_before_persisting_witness:
  "breaks_site_rule float_of_sample
     (form \<lparr>meth = POST, form = [''Latitude'' \<mapsto> ''95'', ''Longitude'' \<mapsto> ''10'']\<rparr>)
   \<and> snd (admin_entity_add float_of_sample ''2025-01-01T00:00:00'' admin_session
        \<lparr>meth = POST, form = [''Latitude'' \<mapsto> ''95'', ''Longitude'' \<mapsto> ''10'']\<rparr>
        ''sites'' fresh_files) = fresh_files"
proof -
  have h: "breaks_site_rule float_of_sample
     (form \<lparr>meth = POST, form = [''Latitude'' \<mapsto> ''95'', ''Longitude'' \<mapsto> ''10'']\<rparr>)"
    by (simp add: breaks_site_rule_def form_get_def float_of_sample_def)
  from site_writes_validated_before_persisting[OF h] h show ?thesis
    by blast
qed

text \<open>
  The claim as written fails for a ProductionStat: an administrator's add with
  Production_tonnes -5 is accepted and the record is stored.
\<close>

theorem production_write_not_validated_counterexample:
  "fst (admin_entity_add float_of_sample ''2025-01-01T00:00:00'' admin_session
          \<lparr>meth = POST, form = [''Year'' \<mapsto> ''2024'', ''Production_tonnes'' \<mapsto> ''-5'']\<rparr>
          ''production'' fresh_files)
     = Redirect ''/admin/production'' [Flash ''Added.'' ''success'']
   \<and> map (\<lambda>r. (r ''StatID'', r ''Year'', r ''Production_tonnes''))
       (rows (load_csv ''production_stats.csv''
          (snd (admin_entity_add float_of_sample ''2025-01-01T00:00:00'' admin_session
             \<lparr>meth = POST, form = [''Year'' \<mapsto> ''2024'', ''Production_tonnes'' \<mapsto> ''-5'']\<rparr>
             ''production'' fresh_files))))
     = [(IntC 1, StrC ''2024'', StrC ''-5'')]"
  by (simp add: admin_entity_add_def admin_required_def admin_session_def ENTITIES_def
      fresh_files_def header_only_def load_csv_def new_id_of_def df_empty_def
      entity_errors_def loc_append_def after_write_def reload_all_data_def save_csv_def
      log_event_def append_text_def AUDIT_LOG_def session_user_def row_of_dict_def
      new_row_def form_get_def Let_def)

text \<open>
  C4. The claim holds but for one case the code misses: a Production_tonnes that parses
  to not-a-number is not below 0, so the validator adds no message for it (where the
  checks of Latitude and Longitude reject not-a-number), and the site is stored. Here an
  administrator adds a site with Latitude 0, Longitude 0 and Production_tonnes nan.
\<close>

theorem site_with_nan_production_is_stored:
  "fst (admin_entity_add float_of_sample ''2025-01-01T00:00:00'' admin_session
          \<lparr>meth = POST, form = [''Latitude'' \<mapsto> ''0'', ''Longitude'' \<mapsto> ''0'',
                                ''Production_tonnes'' \<mapsto> ''nan'']\<rparr>
          ''sites'' fresh_files)
     = Redirect ''/admin/sites'' [Flash ''Added.'' ''success'']
   \<and> map (\<lambda>r. (r ''SiteID'', r ''Latitude'', r ''Longitude'', r ''Production_tonnes''))
       (rows (load_csv ''sites.csv''
          (snd (admin_entity_add float_of_sample ''2025-01-01T00:00:00'' admin_session
             \<lparr>meth = POST, form = [''Latitude'' \<mapsto> ''0'', ''Longitude'' \<mapsto> ''0'',
                                   ''Production_tonnes'' \<mapsto> ''nan'']\<rparr>
             ''sites'' fresh_files))))
     = [(IntC 1, StrC ''0'', StrC ''0'', StrC ''nan'')]"
  by (simp add: admin_entity_add_def admin_required_def admin_session_def ENTITIES_def
      fresh_files_def header_only_def load_csv_def new_id_of_def df_empty_def
      entity_errors_def site_errors_def latitude_errors_def longitude_errors_def
      production_errors_def production_value_def float_of_sample_def fl_lt_def
      loc_append_def after_write_def reload_all_data_def save_csv_def
      log_event_def append_text_def AUDIT_LOG_def session_user_def row_of_dict_def
      new_row_def form_get_def Let_def)

section \<open>Editing a record\<close>

lemma first_index_Some:
  "first_index c v rs = Some i \<Longrightarrow> i < length rs \<and> cell_eq ((rs ! i) c) v"
proof (induction rs arbitrary: i)
  case Nil
  then show ?case by simp
next
  case (Cons r rs)
  show ?case
  proof (cases "cell_eq (r c) v")
    case True
    with Cons.prems show ?thesis by simp
  next
    case False
    with Cons.prems obtain j where j: "first_index c v rs = Some j" and i: "i = Suc j"
      by auto
    from Cons.IH[OF j] i show ?thesis by simp
  qed
qed

text \<open>The row an edit leaves: every field of the entity but the id field takes the
  submitted text when there is one, and every other cell stays.\<close>

lemma edit_fields_result:
  assumes "idx < length (rows df)"
    and "\<forall>f \<in> set fs. f \<noteq> c \<longrightarrow> f \<in> set (columns df)"
  shows "edit_fields fs c frm idx df =
           Inr (df\<lparr>rows := (rows df)[idx :=
                  (\<lambda>x. if x \<in> set fs \<and> x \<noteq> c
                        then (case frm x of Some v \<Rightarrow> StrC v | None \<Rightarrow> (rows df ! idx) x)
                        else (rows df ! idx) x)]\<rparr>)"
  using assms
proof (induction fs arbitrary: df)
  case Nil
  then show ?case by simp
next
  case (Cons f fs)
  show ?case
  proof (cases "f = c")
    case True
    have "(\<lambda>x. if x \<in> set fs \<and> x \<noteq> c
                then (case frm x of Some v \<Rightarrow> StrC v | None \<Rightarrow> (rows df ! idx) x)
                else (rows df ! idx) x)
          = (\<lambda>x. if x \<in> set (f # fs) \<and> x \<noteq> c
                then (case frm x of Some v \<Rightarrow> StrC v | None \<Rightarrow> (rows df ! idx) x)
                else (rows df ! idx) x)"
      using True by (auto simp: fun_eq_iff)
    moreover have "edit_fields (f # fs) c frm idx df = edit_fields fs c frm idx df"
      using True by simp
    moreover have "\<forall>g \<in> set fs. g \<noteq> c \<longrightarrow> g \<in> set (columns df)"
      using Cons.prems(2) by simp
    ultimately show ?thesis
      using Cons.IH[OF Cons.prems(1)] by simp
  next
    case False
    let ?v = "case frm f of Some v \<Rightarrow> StrC v | None \<Rightarrow> (rows df ! idx) f"
    let ?df1 = "at_set df idx f ?v"
    have col: "f \<in> set (columns df)"
      using Cons.prems(2) False by simp
    have len1: "idx < length (rows ?df1)"
      using Cons.prems(1) by (simp add: at_set_def)
    have cols1: "\<forall>g \<in> set fs. g \<noteq> c \<longrightarrow> g \<in> set (columns ?df1)"
      using Cons.prems(2) by (simp add: at_set_def)
    have row1: "rows ?df1 ! idx = (rows df ! idx)(f := ?v)"
      using Cons.prems(1) by (simp add: at_set_def)
    have "edit_fields (f # fs) c frm idx df = edit_fields fs c frm idx ?df1"
      using False col by simp
    also have "\<dots> = Inr (?df1\<lparr>rows := (rows ?df1)[idx :=
                  (\<lambda>x. if x \<in> set fs \<and> x \<noteq> c
                        then (case frm x of Some v \<Rightarrow> StrC v | None \<Rightarrow> (rows ?df1 ! idx) x)
                        else (rows ?df1 ! idx) x)]\<rparr>)"
      by (rule Cons.IH[OF len1 cols1])
    also have "\<dots> = Inr (df\<lparr>rows := (rows df)[idx :=
                  (\<lambda>x. if x \<in> set (f # fs) \<and> x \<noteq> c
                        then (case frm x of Some v \<Rightarrow> StrC v | None \<Rightarrow> (rows df ! idx) x)
                        else (rows df ! idx) x)]\<rparr>)"
    proof -
      have "(\<lambda>x. if x \<in> set fs \<and> x \<noteq> c
                  then (case frm x of Some v \<Rightarrow> StrC v | None \<Rightarrow> (rows ?df1 ! idx) x)
                  else (rows ?df1 ! idx) x)
            = (\<lambda>x. if x \<in> set (f # fs) \<and> x \<noteq> c
                  then (case frm x of Some v \<Rightarrow> StrC v | None \<Rightarrow> (rows df ! idx) x)
                  else (rows df ! idx) x)"
        unfolding row1 using False by (auto simp: fun_eq_iff split: option.splits)
      then show ?thesis
        by (simp add: at_set_def)
    qed
    finally show ?thesis .
  qed
qed

lemma admin_entity_edit_frames:
  assumes "sess_logged_in sess" "sess_role sess = Some ''Administrator''"
    and "ENTITIES ent = Some cfg" "meth req = POST"
    and "frames fs (csv cfg) = Some df"
    and "idf cfg \<in> set (columns df)"
    and "\<forall>f \<in> set (fields' cfg). f \<noteq> idf cfg \<longrightarrow> f \<in> set (columns df)"
    and "first_index (idf cfg) (IntC obj_id) (rows df) = Some idx"
    and "entity_errors to_float cfg (form req) = []"
  shows "frames (snd (admin_entity_edit to_float ts sess req ent obj_id fs)) =
           (frames fs)(csv cfg \<mapsto> df\<lparr>rows := (rows df)[idx :=
              (\<lambda>x. if x \<in> set (fields' cfg) \<and> x \<noteq> idf cfg
                    then (case form req x of Some v \<Rightarrow> StrC v | None \<Rightarrow> (rows df ! idx) x)
                    else (rows df ! idx) x)]\<rparr>)"
proof -
  have idx: "idx < length (rows df)"
    using first_index_Some[OF assms(8)] by simp
  note ef = edit_fields_result[OF idx assms(7), of "form req"]
  show ?thesis
    using assms(1-6,8,9)
    by (simp add: admin_entity_edit_def admin_required_def load_csv_def Let_def ef
        after_write_frames save_csv_def)
qed

text \<open>What an accepted edit stores.\<close>

lemma admin_entity_edit_accepted:
  assumes "sess_logged_in sess" "sess_role sess = Some ''Administrator''"
    and "ENTITIES ent = Some cfg" "meth req = POST"
    and "frames fs (csv cfg) = Some df"
    and "set (fields' cfg) \<subseteq> set (columns df)"
    and "first_index (idf cfg) (IntC obj_id) (rows df) = Some idx"
    and "entity_errors to_float cfg (form req) = []"
  shows "\<exists>df'. frames (snd (admin_entity_edit to_float ts sess req ent obj_id fs))
                  = (frames fs)(csv cfg \<mapsto> df')
           \<and> columns df' = columns df \<and> length (rows df') = length (rows df)
           \<and> (\<forall>f. f \<in> set (fields' cfg) \<and> f \<noteq> idf cfg \<longrightarrow>
                 (rows df' ! idx) f =
                   (case form req f of Some v \<Rightarrow> StrC v | None \<Rightarrow> (rows df ! idx) f))
           \<and> (rows df' ! idx) (idf cfg) = (rows df ! idx) (idf cfg)
           \<and> (\<forall>f. f \<notin> set (fields' cfg) \<longrightarrow> (rows df' ! idx) f = (rows df ! idx) f)
           \<and> (\<forall>j. j < length (rows df) \<and> j \<noteq> idx \<longrightarrow> rows df' ! j = rows df ! j)"
proof -
  let ?r = "\<lambda>x. if x \<in> set (fields' cfg) \<and> x \<noteq> idf cfg
                 then (case form req x of Some v \<Rightarrow> StrC v | None \<Rightarrow> (rows df ! idx) x)
                 else (rows df ! idx) x"
  let ?df' = "df\<lparr>rows := (rows df)[idx := ?r]\<rparr>"
  have idx: "idx < length (rows df)"
    using first_index_Some[OF assms(7)] by simp
  have idc: "idf cfg \<in> set (columns df)"
    using assms(3,6) by (auto simp: ENTITIES_def split: if_splits)
  have cols: "\<forall>f \<in> set (fields' cfg). f \<noteq> idf cfg \<longrightarrow> f \<in> set (columns df)"
    using assms(6) by auto
  have 1: "frames (snd (admin_entity_edit to_float ts sess req ent obj_id fs))
             = (frames fs)(csv cfg \<mapsto> ?df')"
    by (rule admin_entity_edit_frames[OF assms(1-5) idc cols assms(7,8)])
  have 2: "rows ?df' ! idx = ?r"
    using idx by simp
  have 3: "\<forall>j. j < length (rows df) \<and> j \<noteq> idx \<longrightarrow> rows ?df' ! j = rows df ! j"
    by simp
  have 4: "\<forall>f. f \<in> set (fields' cfg) \<and> f \<noteq> idf cfg \<longrightarrow>
             (rows ?df' ! idx) f =
               (case form req f of Some v \<Rightarrow> StrC v | None \<Rightarrow> (rows df ! idx) f)"
    unfolding 2 by simp
  have 5: "(rows ?df' ! idx) (idf cfg) = (rows df ! idx) (idf cfg)"
    unfolding 2 by simp
  have 6: "\<forall>f. f \<notin> set (fields' cfg) \<longrightarrow> (rows ?df' ! idx) f = (rows df ! idx) f"
    unfolding 2 by simp
  have 7: "columns ?df' = columns df \<and> length (rows ?df') = length (rows df)"
    by simp
  from 1 3 4 5 6 7 show ?thesis by blast
qed

text \<open>What a rejected edit answers: the messages, and every file as it was.\<close>

lemma admin_entity_edit_errors_shown:
  assumes "sess_logged_in sess" "sess_role sess = Some ''Administrator''"
    and "ENTITIES ent = Some cfg" "meth req = POST"
    and "frames fs (csv cfg) = Some df"
    and "set (fields' cfg) \<subseteq> set (columns df)"
    and "first_index (idf cfg) (IntC obj_id) (rows df) = Some idx"
    and "entity_errors to_float cfg (form req) \<noteq> []"
  shows "admin_entity_edit to_float ts sess req ent obj_id fs =
           (Render ''admin_edit_generic.html'' (entity_errors to_float cfg (form req)), fs)"
proof -
  have idx: "idx < length (rows df)"
    using first_index_Some[OF assms(7)] by simp
  have idc: "idf cfg \<in> set (columns df)"
    using assms(3,6) by (auto simp: ENTITIES_def split: if_splits)
  have cols: "\<forall>f \<in> set (fields' cfg). f \<noteq> idf cfg \<longrightarrow> f \<in> set (columns df)"
    using assms(6) by auto
  note ef = edit_fields_result[OF idx cols, of "form req"]
  show ?thesis
    using assms(1-5,7,8) idc
    by (simp add: admin_entity_edit_def admin_required_def load_csv_def Let_def ef)
qed

lemma site_errors_missing_coordinate:
  assumes "to_float [] = None" "frm ''Latitude'' = None \<or> frm ''Longitude'' = None"
  shows "site_errors to_float frm \<noteq> []"
  using assms
  by (auto simp: site_errors_def latitude_errors_def longitude_errors_def form_get_def)

text \<open>
  C9, as the code has it. For every entity and every identifier a stored record has, an
  edit that an administrator submits is accepted or rejected by the validator. An accepted
  edit stores, in place of the first record with that identifier, the record in which
  each field of the entity other than the identifier holds the submitted value, or the
  record's own value where the form has none; the identifier of that record is what it
  was, and every other record (in particular every record with another identifier) and
  every other file's frame is as it was. A rejected edit answers with the validator's
  messages and leaves every file as it was. Every edit of an entity other than the sites
  is accepted; an edit of a site is validated on the submitted texts alone, so that one
  which leaves out Latitude or Longitude is rejected (the empty text is not a number):
  there the record's own value is no fallback.
\<close>

theorem admin_entity_edit_overwrites_fields:
  assumes "sess_logged_in sess" "sess_role sess = Some ''Administrator''"
    and "ENTITIES ent = Some cfg" "meth req = POST"
    and "frames fs (csv cfg) = Some df"
    and "set (fields' cfg) \<subseteq> set (columns df)"
    and "first_index (idf cfg) (IntC obj_id) (rows df) = Some idx"
  shows "(entity_errors to_float cfg (form req) = [] \<longrightarrow>
           (\<exists>df'. frames (snd (admin_entity_edit to_float ts sess req ent obj_id fs))
                    = (frames fs)(csv cfg \<mapsto> df')
             \<and> columns df' = columns df \<and> length (rows df') = length (rows df)
             \<and> (\<forall>f. f \<in> set (fields' cfg) \<and> f \<noteq> idf cfg \<longrightarrow>
                   (rows df' ! idx) f =
                     (case form req f of Some v \<Rightarrow> StrC v | None \<Rightarrow> (rows df ! idx) f))
             \<and> (rows df' ! idx) (idf cfg) = (rows df ! idx) (idf cfg)
             \<and> (\<forall>f. f \<notin> set (fields' cfg) \<longrightarrow> (rows df' ! idx) f = (rows df ! idx) f)
             \<and> (\<forall>j. j < length (rows df) \<and> j \<noteq> idx \<longrightarrow> rows df' ! j = rows df ! j)))
       \<and> (entity_errors to_float cfg (form req) \<noteq> [] \<longrightarrow>
            admin_entity_edit to_float ts sess req ent obj_id fs =
              (Render ''admin_edit_generic.html'' (entity_errors to_float cfg (form req)), fs))
       \<and> (csv cfg \<noteq> ''sites.csv'' \<longrightarrow> entity_errors to_float cfg (form req) = [])
       \<and> (csv cfg = ''sites.csv'' \<longrightarrow>
            entity_errors to_float cfg (form req) = site_errors to_float (form req))
       \<and> (csv cfg = ''sites.csv'' \<and> to_float [] = None
            \<and> (form req ''Latitude'' = None \<or> form req ''Longitude'' = None) \<longrightarrow>
            entity_errors to_float cfg (form req) \<noteq> [])"
proof -
  have 1: "entity_errors to_float cfg (form req) = [] \<longrightarrow>
           (\<exists>df'. frames (snd (admin_entity_edit to_float ts sess req ent obj_id fs))
                    = (frames fs)(csv cfg \<mapsto> df')
             \<and> columns df' = columns df \<and> length (rows df') = length (rows df)
             \<and> (\<forall>f. f \<in> set (fields' cfg) \<and> f \<noteq> idf cfg \<longrightarrow>
                   (rows df' ! idx) f =
                     (case form req f of Some v \<Rightarrow> StrC v | None \<Rightarrow> (rows df ! idx) f))
             \<and> (rows df' ! idx) (idf cfg) = (rows df ! idx) (idf cfg)
             \<and> (\<forall>f. f \<notin> set (fields' cfg) \<longrightarrow> (rows df' ! idx) f = (rows df ! idx) f)
             \<and> (\<forall>j. j < length (rows df) \<and> j \<noteq> idx \<longrightarrow> rows df' ! j = rows df ! j))"
    using admin_entity_edit_accepted[OF assms] by blast
  have 2: "entity_errors to_float cfg (form req) \<noteq> [] \<longrightarrow>
            admin_entity_edit to_float ts sess req ent obj_id fs =
              (Render ''admin_edit_generic.html'' (entity_errors to_float cfg (form req)), fs)"
    using admin_entity_edit_errors_shown[OF assms] by blast
  have 3: "csv cfg \<noteq> ''sites.csv'' \<longrightarrow> entity_errors to_float cfg (form req) = []"
    by (simp add: entity_errors_def)
  have 4: "csv cfg = ''sites.csv'' \<longrightarrow>
            entity_errors to_float cfg (form req) = site_errors to_float (form req)"
    by (simp add: entity_errors_def)
  have 5: "csv cfg = ''sites.csv'' \<and> to_float [] = None
            \<and> (form req ''Latitude'' = None \<or> form req ''Longitude'' = None) \<longrightarrow>
            entity_errors to_float cfg (form req) \<noteq> []"
    using site_errors_missing_coordinate[of to_float "form req"]
    by (auto simp: entity_errors_def)
  from 1 2 3 4 5 show ?thesis by blast
qed

theorem admin_entity_edit_overwrites_fields_witness:
  "(\<exists>df'. frames (snd (admin_entity_edit float_of_sample ''2025-01-01T00:00:00'' admin_session
                      \<lparr>meth = POST, form = [''CountryName'' \<mapsto> ''Newland'']\<rparr>
                      ''countries'' 2 country_files))
            = (frames country_files)(''countries.csv'' \<mapsto> df')
         \<and> (rows df' ! 1) ''CountryName'' = StrC ''Newland''
         \<and> (rows df' ! 1) ''GDP_BillionUSD'' = IntC 5
         \<and> (rows df' ! 1) ''CountryID'' = IntC 2
         \<and> rows df' ! 0 = rows two_countries ! 0)
   \<and> (\<exists>df'. frames (snd (admin_entity_edit float_of_sample ''2025-01-01T00:00:00'' admin_session
                      \<lparr>meth = POST, form = [''Latitude'' \<mapsto> ''10'', ''Longitude'' \<mapsto> ''10'']\<rparr>
                      ''sites'' 1 site_files))
            = (frames site_files)(''sites.csv'' \<mapsto> df')
         \<and> (rows df' ! 0) ''SiteName'' = StrC ''Old pit''
         \<and> (rows df' ! 0) ''Latitude'' = StrC ''10''
         \<and> (rows df' ! 0) ''Production_tonnes'' = IntC 100
         \<and> (rows df' ! 0) ''SiteID'' = IntC 1)"
proof -
  let ?cfg = "\<lparr>csv = ''countries.csv'', idf = ''CountryID'',
         fields' = [''CountryID'', ''CountryName'', ''GDP_BillionUSD'',
                   ''MiningRevenue_BillionUSD'', ''KeyProjects''],
         title = ''Countries'', selects = []\<rparr>"
  let ?req = "\<lparr>meth = POST, form = [''CountryName'' \<mapsto> ''Newland'']\<rparr>"
  have h1: "sess_logged_in admin_session"
    by (simp add: admin_session_def)
  have h2: "sess_role admin_session = Some ''Administrator''"
    by (simp add: admin_session_def)
  have h3: "ENTITIES ''countries'' = Some ?cfg"
    by (simp add: ENTITIES_def)
  have h4: "meth ?req = POST"
    by simp
  have h5: "frames country_files (csv ?cfg) = Some two_countries"
    by (simp add: country_files_def)
  have h6: "set (fields' ?cfg) \<subseteq> set (columns two_countries)"
    by (simp add: two_countries_def)
  have h7: "first_index (idf ?cfg) (IntC 2) (rows two_countries) = Some 1"
    by (simp add: two_countries_def)
  have h8: "entity_errors float_of_sample ?cfg (form ?req) = []"
    by (simp add: entity_errors_def)
  from admin_entity_edit_overwrites_fields[OF h1 h2 h3 h4 h5 h6 h7,
      where to_float = float_of_sample and ts = "''2025-01-01T00:00:00''"] h8
  obtain df' where
    a: "frames (snd (admin_entity_edit float_of_sample ''2025-01-01T00:00:00'' admin_session
              ?req ''countries'' 2 country_files))
          = (frames country_files)(csv ?cfg \<mapsto> df')"
    and b: "\<forall>f. f \<in> set (fields' ?cfg) \<and> f \<noteq> idf ?cfg \<longrightarrow>
              (rows df' ! 1) f =
                (case form ?req f of Some v \<Rightarrow> StrC v | None \<Rightarrow> (rows two_countries ! 1) f)"
    and c: "(rows df' ! 1) (idf ?cfg) = (rows two_countries ! 1) (idf ?cfg)"
    and d: "\<forall>j. j < length (rows two_countries) \<and> j \<noteq> 1 \<longrightarrow> rows df' ! j = rows two_countries ! j"
    by blast
  have 1: "(rows df' ! 1) ''CountryName'' = StrC ''Newland''"
    using b[rule_format, of "''CountryName''"] by simp
  have 2: "(rows df' ! 1) ''GDP_BillionUSD'' = IntC 5"
    using b[rule_format, of "''GDP_BillionUSD''"] by (simp add: two_countries_def)
  have 3: "(rows df' ! 1) ''CountryID'' = IntC 2"
    using c by (simp add: two_countries_def)
  have 4: "rows df' ! 0 = rows two_countries ! 0"
    using d[rule_format, of 0] by (simp add: two_countries_def)
  from a 1 2 3 4 have countries:
    "\<exists>df'. frames (snd (admin_entity_edit float_of_sample ''2025-01-01T00:00:00'' admin_session
                      ?req ''countries'' 2 country_files))
            = (frames country_files)(''countries.csv'' \<mapsto> df')
         \<and> (rows df' ! 1) ''CountryName'' = StrC ''Newland''
         \<and> (rows df' ! 1) ''GDP_BillionUSD'' = IntC 5
         \<and> (rows df' ! 1) ''CountryID'' = IntC 2
         \<and> rows df' ! 0 = rows two_countries ! 0"
    by auto
  let ?scfg = "\<lparr>csv = ''sites.csv'', idf = ''SiteID'',
         fields' = [''SiteID'', ''SiteName'', ''CountryID'', ''MineralID'', ''Latitude'',
                   ''Longitude'', ''Production_tonnes''],
         title = ''Sites'',
         selects = [(''CountryID'', ''countries'', ''CountryID'', ''CountryName''),
                    (''MineralID'', ''minerals'', ''MineralID'', ''MineralName'')]\<rparr>"
  let ?sreq = "\<lparr>meth = POST, form = [''Latitude'' \<mapsto> ''10'', ''Longitude'' \<mapsto> ''10'']\<rparr>"
  have s3: "ENTITIES ''sites'' = Some ?scfg"
    by (simp add: ENTITIES_def)
  have s4: "meth ?sreq = POST"
    by simp
  have s5: "frames site_files (csv ?scfg) = Some one_site"
    by (simp add: site_files_def)
  have s6: "set (fields' ?scfg) \<subseteq> set (columns one_site)"
    by (simp add: one_site_def)
  have s7: "first_index (idf ?scfg) (IntC 1) (rows one_site) = Some 0"
    by (simp add: one_site_def)
  have s8: "entity_errors float_of_sample ?scfg (form ?sreq) = []"
    by (simp add: entity_errors_def site_errors_def latitude_errors_def longitude_errors_def
        production_errors_def production_value_def form_get_def float_of_sample_def fl_lt_def)
  from admin_entity_edit_overwrites_fields[OF h1 h2 s3 s4 s5 s6 s7,
      where to_float = float_of_sample and ts = "''2025-01-01T00:00:00''"] s8
  obtain sf where
    sa: "frames (snd (admin_entity_edit float_of_sample ''2025-01-01T00:00:00'' admin_session
              ?sreq ''sites'' 1 site_files))
          = (frames site_files)(csv ?scfg \<mapsto> sf)"
    and sb: "\<forall>f. f \<in> set (fields' ?scfg) \<and> f \<noteq> idf ?scfg \<longrightarrow>
              (rows sf ! 0) f =
                (case form ?sreq f of Some v \<Rightarrow> StrC v | None \<Rightarrow> (rows one_site ! 0) f)"
    and sc: "(rows sf ! 0) (idf ?scfg) = (rows one_site ! 0) (idf ?scfg)"
    by blast
  have 5: "(rows sf ! 0) ''SiteName'' = StrC ''Old pit''"
    using sb[rule_format, of "''SiteName''"] by (simp add: one_site_def)
  have 6: "(rows sf ! 0) ''Latitude'' = StrC ''10''"
    using sb[rule_format, of "''Latitude''"] by simp
  have 7: "(rows sf ! 0) ''Production_tonnes'' = IntC 100"
    using sb[rule_format, of "''Production_tonnes''"] by (simp add: one_site_def)
  have 8: "(rows sf ! 0) ''SiteID'' = IntC 1"
    using sc by (simp add: one_site_def)
  from sa 5 6 7 8 have sites:
    "\<exists>df'. frames (snd (admin_entity_edit float_of_sample ''2025-01-01T00:00:00'' admin_session
                      ?sreq ''sites'' 1 site_files))
            = (frames site_files)(''sites.csv'' \<mapsto> df')
         \<and> (rows df' ! 0) ''SiteName'' = StrC ''Old pit''
         \<and> (rows df' ! 0) ''Latitude'' = StrC ''10''
         \<and> (rows df' ! 0) ''Production_tonnes'' = IntC 100
         \<and> (rows df' ! 0) ''SiteID'' = IntC 1"
    by auto
  from countries sites show ?thesis by blast
qed

text \<open>
  The claim as written fails for a site: an edit that submits the name alone, and so no
  Latitude and no Longitude, is rejected with two messages and stores nothing, where the
  claim has the record keep its coordinates and take the new name.
\<close>

theorem site_edit_without_coordinates_counterexample:
  "admin_entity_edit float_of_sample ''2025-01-01T00:00:00'' admin_session
      \<lparr>meth = POST, form = [''SiteName'' \<mapsto> ''New pit'']\<rparr> ''sites'' 1 site_files
     = (Render ''admin_edit_generic.html''
          [''Latitude must be a valid number'', ''Longitude must be a valid number''],
        site_files)
   \<and> map (\<lambda>r. (r ''SiteID'', r ''SiteName'', r ''Latitude'', r ''Longitude''))
       (rows (load_csv ''sites.csv'' site_files))
     = [(IntC 1, StrC ''Old pit'', IntC 10, IntC 20)]"
proof -
  let ?scfg = "\<lparr>csv = ''sites.csv'', idf = ''SiteID'',
         fields' = [''SiteID'', ''SiteName'', ''CountryID'', ''MineralID'', ''Latitude'',
                   ''Longitude'', ''Production_tonnes''],
         title = ''Sites'',
         selects = [(''CountryID'', ''countries'', ''CountryID'', ''CountryName''),
                    (''MineralID'', ''minerals'', ''MineralID'', ''MineralName'')]\<rparr>"
  let ?req = "\<lparr>meth = POST, form = [''SiteName'' \<mapsto> ''New pit'']\<rparr>"
  have h1: "sess_logged_in admin_session"
    by (simp add: admin_session_def)
  have h2: "sess_role admin_session = Some ''Administrator''"
    by (simp add: admin_session_def)
  have s3: "ENTITIES ''sites'' = Some ?scfg"
    by (simp add: ENTITIES_def)
  have s4: "meth ?req = POST"
    by simp
  have s5: "frames site_files (csv ?scfg) = Some one_site"
    by (simp add: site_files_def)
  have s6: "set (fields' ?scfg) \<subseteq> set (columns one_site)"
    by (simp add: one_site_def)
  have s7: "first_index (idf ?scfg) (IntC 1) (rows one_site) = Some 0"
    by (simp add: one_site_def)
  have s8: "entity_errors float_of_sample ?scfg (form ?req) =
              [''Latitude must be a valid number'', ''Longitude must be a valid number'']"
    by (simp add: entity_errors_def site_errors_def latitude_errors_def longitude_errors_def
        production_errors_def production_value_def form_get_def float_of_sample_def fl_lt_def)
  have 1: "admin_entity_edit float_of_sample ''2025-01-01T00:00:00'' admin_session
      ?req ''sites'' 1 site_files
     = (Render ''admin_edit_generic.html''
          [''Latitude must be a valid number'', ''Longitude must be a valid number''],
        site_files)"
    using admin_entity_edit_errors_shown[OF h1 h2 s3 s4 s5 s6 s7,
        where to_float = float_of_sample and ts = "''2025-01-01T00:00:00''"] s8
    by simp
  have 2: "map (\<lambda>r. (r ''SiteID'', r ''SiteName'', r ''Latitude'', r ''Longitude''))
       (rows (load_csv ''sites.csv'' site_files))
     = [(IntC 1, StrC ''Old pit'', IntC 10, IntC 20)]"
    by (simp add: load_csv_def site_files_def one_site_def)
  from 1 2 show ?thesis by blast
qed

section \<open>Assigning identifiers\<close>

lemma new_id_of_is_next_id:
  "c \<noteq> [] \<Longrightarrow> new_id_of (load_csv p fs) c = next_id \<lparr>path = p, id_field = Some c\<rparr> fs"
  by (simp add: new_id_of_def next_id_def load_csv_def load_def)

lemma admin_entity_add_frames:
  assumes "sess_logged_in sess" "sess_role sess = Some ''Administrator''"
    and "ENTITIES ent = Some cfg" "meth req = POST"
    and "frames fs (csv cfg) = Some df" "columns df \<noteq> []"
    and "new_id_of df (idf cfg) = Inr n"
    and "entity_errors to_float cfg (form req) = []"
  shows "frames (snd (admin_entity_add to_float ts sess req ent fs)) =
           (frames fs)(csv cfg \<mapsto>
              df\<lparr>rows := rows df @ [row_of_dict (columns df) (new_row cfg n (form req))]\<rparr>)"
  using assms
  by (simp add: admin_entity_add_def admin_required_def load_csv_def Let_def loc_append_def
      after_write_frames save_csv_def)

lemma two_adds_to_countries:
  "map (\<lambda>r. (r ''CountryID'', r ''CountryName'', r ''GDP_BillionUSD''))
     (rows (load_csv ''countries.csv''
        (snd (admin_entity_add to_float ts2 admin_session
           \<lparr>meth = POST, form = [''CountryName'' \<mapsto> ''Otherland'', ''GDP_BillionUSD'' \<mapsto> ''5'']\<rparr>
           ''countries''
           (snd (admin_entity_add to_float ts1 admin_session
              \<lparr>meth = POST, form = [''CountryName'' \<mapsto> ''Testland'', ''GDP_BillionUSD'' \<mapsto> ''10'']\<rparr>
              ''countries'' fresh_files))))))
   = [(IntC 1, StrC ''Testland'', StrC ''10''), (IntC 2, StrC ''Otherland'', StrC ''5'')]"
proof -
  let ?cfg = "\<lparr>csv = ''countries.csv'', idf = ''CountryID'',
         fields' = [''CountryID'', ''CountryName'', ''GDP_BillionUSD'',
                   ''MiningRevenue_BillionUSD'', ''KeyProjects''],
         title = ''Countries'', selects = []\<rparr>"
  let ?cols = "[''CountryID'', ''CountryName'', ''GDP_BillionUSD'',
                ''MiningRevenue_BillionUSD'', ''KeyProjects'']"
  let ?req1 = "\<lparr>meth = POST, form = [''CountryName'' \<mapsto> ''Testland'', ''GDP_BillionUSD'' \<mapsto> ''10'']\<rparr>"
  let ?req2 = "\<lparr>meth = POST, form = [''CountryName'' \<mapsto> ''Otherland'', ''GDP_BillionUSD'' \<mapsto> ''5'']\<rparr>"
  let ?fs1 = "snd (admin_entity_add to_float ts1 admin_session ?req1 ''countries'' fresh_files)"
  let ?r1 = "row_of_dict ?cols (new_row ?cfg 1 (form ?req1))"
  let ?df1 = "\<lparr>columns = ?cols, rows = [?r1]\<rparr>"
  have s1: "sess_logged_in admin_session" and s2: "sess_role admin_session = Some ''Administrator''"
    by (simp_all add: admin_session_def)
  have e: "ENTITIES ''countries'' = Some ?cfg"
    by (simp add: ENTITIES_def)
  have f0: "frames fresh_files (csv ?cfg) = Some (header_only ?cols)"
    by (simp add: fresh_files_def)
  have n0: "new_id_of (header_only ?cols) (idf ?cfg) = Inr 1"
    by (simp add: new_id_of_def header_only_def df_empty_def)
  have v1: "entity_errors to_float ?cfg (form ?req1) = []"
    and v2: "entity_errors to_float ?cfg (form ?req2) = []"
    by (simp_all add: entity_errors_def)
  have c0: "columns (header_only ?cols) \<noteq> []"
    by (simp add: header_only_def)
  have fr1: "frames ?fs1 = (frames fresh_files)(''countries.csv'' \<mapsto> ?df1)"
    using admin_entity_add_frames[OF s1 s2 e _ f0 c0 n0 v1, of ts1]
    by (simp add: header_only_def)
  have f1: "frames ?fs1 (csv ?cfg) = Some ?df1"
    by (simp add: fr1)
  have id1: "?r1 ''CountryID'' = IntC 1"
    by (simp add: row_of_dict_def new_row_def)
  have n1: "new_id_of ?df1 (idf ?cfg) = Inr 2"
    using id1 by (simp add: new_id_of_def df_empty_def column_max_def Let_def)
  have c1: "columns ?df1 \<noteq> []"
    by simp
  have fr2: "frames (snd (admin_entity_add to_float ts2 admin_session ?req2 ''countries'' ?fs1))
               = (frames ?fs1)(''countries.csv'' \<mapsto>
                    ?df1\<lparr>rows := rows ?df1 @ [row_of_dict ?cols (new_row ?cfg 2 (form ?req2))]\<rparr>)"
    using admin_entity_add_frames[OF s1 s2 e _ f1 c1 n1 v2, of ts2] by simp
  show ?thesis
    by (simp add: load_csv_def fr2 row_of_dict_def new_row_def form_get_def)
qed

text \<open>
  C6. For a store with an identifier field, \<open>next_id\<close> returns 1 when the stored
  collection is empty; when it is not empty (and the field is a column of integer
  identifiers) it returns m + 1 for the greatest identifier m that is stored. The add
  handler computes the identifier of a new record by the same rule. Starting from the
  empty Country collection, adding Testland and then Otherland stores Testland with
  CountryID 1 and Otherland with CountryID 2, in that order.
\<close>

theorem next_id_is_one_or_max_plus_one:
  "(id_field st = Some f \<and> df_empty (load st fs) \<longrightarrow> next_id st fs = Inr 1)
   \<and> (id_field st = Some f \<and> f \<noteq> [] \<and> \<not> df_empty (load st fs)
        \<and> f \<in> set (columns (load st fs))
        \<and> (\<forall>r \<in> set (rows (load st fs)). \<exists>i. r f = IntC i)
      \<longrightarrow> (\<exists>m. next_id st fs = Inr (m + 1)
             \<and> (\<exists>r \<in> set (rows (load st fs)). r f = IntC m)
             \<and> (\<forall>r \<in> set (rows (load st fs)). \<forall>i. r f = IntC i \<longrightarrow> i \<le> m)))
   \<and> (f \<noteq> [] \<longrightarrow> new_id_of (load_csv p fs) f = next_id \<lparr>path = p, id_field = Some f\<rparr> fs)
   \<and> map (\<lambda>r. (r ''CountryID'', r ''CountryName'', r ''GDP_BillionUSD''))
       (rows (load_csv ''countries.csv''
          (snd (admin_entity_add to_float ts2 admin_session
             \<lparr>meth = POST, form = [''CountryName'' \<mapsto> ''Otherland'', ''GDP_BillionUSD'' \<mapsto> ''5'']\<rparr>
             ''countries''
             (snd (admin_entity_add to_float ts1 admin_session
                \<lparr>meth = POST, form = [''CountryName'' \<mapsto> ''Testland'', ''GDP_BillionUSD'' \<mapsto> ''10'']\<rparr>
                ''countries'' fresh_files))))))
     = [(IntC 1, StrC ''Testland'', StrC ''10''), (IntC 2, StrC ''Otherland'', StrC ''5'')]"
proof -
  have 1: "id_field st = Some f \<and> df_empty (load st fs) \<longrightarrow> next_id st fs = Inr 1"
    by (simp add: next_id_def Let_def)
  have 2: "id_field st = Some f \<and> f \<noteq> [] \<and> \<not> df_empty (load st fs)
        \<and> f \<in> set (columns (load st fs))
        \<and> (\<forall>r \<in> set (rows (load st fs)). \<exists>i. r f = IntC i)
      \<longrightarrow> (\<exists>m. next_id st fs = Inr (m + 1)
             \<and> (\<exists>r \<in> set (rows (load st fs)). r f = IntC m)
             \<and> (\<forall>r \<in> set (rows (load st fs)). \<forall>i. r f = IntC i \<longrightarrow> i \<le> m))"
    using next_id_nonempty[of st f fs] by blast
  have 3: "f \<noteq> [] \<longrightarrow> new_id_of (load_csv p fs) f = next_id \<lparr>path = p, id_field = Some f\<rparr> fs"
    using new_id_of_is_next_id[of f p fs] by blast
  from 1 2 3 two_adds_to_countries[of to_float ts2 ts1] show ?thesis
    by blast
qed

theorem next_id_is_one_or_max_plus_one_witness:
  "next_id countries_store (one_file ''countries.csv'' (ids_frame ''CountryID'' [])) = Inr 1
   \<and> next_id countries_store (one_file ''countries.csv'' (ids_frame ''CountryID'' [4, 9, 2]))
       = Inr 10"
proof -
  let ?empty_files = "one_file ''countries.csv'' (ids_frame ''CountryID'' [])"
  let ?some_files = "one_file ''countries.csv'' (ids_frame ''CountryID'' [4, 9, 2])"
  have i: "id_field countries_store = Some ''CountryID''"
    by (simp add: countries_store_def)
  have l0: "load countries_store ?empty_files = ids_frame ''CountryID'' []"
    and l: "load countries_store ?some_files = ids_frame ''CountryID'' [4, 9, 2]"
    by (simp_all add: load_def countries_store_def one_file_def)
  have e0: "df_empty (load countries_store ?empty_files)"
    unfolding l0 by (simp add: ids_frame_def df_empty_def)
  have a: "next_id countries_store ?empty_files = Inr 1"
    using next_id_is_one_or_max_plus_one[of countries_store "''CountryID''" ?empty_files] i e0
    by blast
  have h: "id_field countries_store = Some ''CountryID'' \<and> ''CountryID'' \<noteq> []
        \<and> \<not> df_empty (load countries_store ?some_files)
        \<and> ''CountryID'' \<in> set (columns (load countries_store ?some_files))
        \<and> (\<forall>r \<in> set (rows (load countries_store ?some_files)). \<exists>i. r ''CountryID'' = IntC i)"
    unfolding l by (simp add: i ids_frame_def df_empty_def row_of_dict_def)
  from next_id_is_one_or_max_plus_one[of countries_store "''CountryID''" ?some_files] h
  obtain m where m: "next_id countries_store ?some_files = Inr (m + 1)"
    and ex: "\<exists>r \<in> set (rows (load countries_store ?some_files)). r ''CountryID'' = IntC m"
    and le: "\<forall>r \<in> set (rows (load countries_store ?some_files)). \<forall>i. r ''CountryID'' = IntC i \<longrightarrow> i \<le> m"
    by blast
  from ex have "m = 4 \<or> m = 9 \<or> m = 2"
    unfolding l by (auto simp: ids_frame_def row_of_dict_def)
  moreover from le have "9 \<le> m"
    unfolding l by (simp add: ids_frame_def row_of_dict_def)
  ultimately have "m = 9" by auto
  with m a show ?thesis by simp
qed

section \<open>Clearing the audit log\<close>

lemma universal_newlines_no_CR: "CR \<notin> set s \<Longrightarrow> universal_newlines s = s"
  by (induction s rule: universal_newlines.induct) auto

lemma backup_name_not_log: "backup_name stamp \<noteq> AUDIT_LOG"
  by (simp add: backup_name_def AUDIT_LOG_def)

text \<open>When the clear goes through: an administrator, a log that can be read and a backup
  that can be written.\<close>

lemma admin_audit_clear_goes_through:
  assumes "sess_logged_in sess" "sess_role sess = Some ''Administrator''"
    and "texts fs AUDIT_LOG = Text s" "texts fs (backup_name stamp) \<noteq> Locked"
  shows "admin_audit_clear stamp ts ts2 sess fs =
           (Redirect ''/admin'' [Flash ''Audit log cleared (backup created).'' ''success''],
            fs\<lparr>texts := (texts fs)
               (backup_name stamp := Text (universal_newlines s),
                AUDIT_LOG := Text (audit_header
                   @ cleared_entry ts (session_user sess) (backup_name stamp)
                   @ ([dq] @ ts2 @ qcq @ session_user sess @ qcq @ ''audit_clear'' @ qcq
                       @ ''/admin/audit/clear'' @ qcq @ ''Backup: '' @ backup_name stamp
                       @ [dq, LF])))\<rparr>)"
  using assms backup_name_not_log[of stamp]
  by (simp add: admin_audit_clear_def admin_required_def read_text_def write_text_def
      log_event_def append_text_def Let_def split: text_file.splits)

lemma admin_audit_clear_success_only:
  assumes "fst (admin_audit_clear stamp ts ts2 sess fs) =
             Redirect ''/admin'' [Flash ''Audit log cleared (backup created).'' ''success'']"
  shows "sess_logged_in sess \<and> sess_role sess = Some ''Administrator''
         \<and> (\<exists>s. texts fs AUDIT_LOG = Text s) \<and> texts fs (backup_name stamp) \<noteq> Locked"
  using assms
  by (auto simp: admin_audit_clear_def admin_required_def read_text_def write_text_def
      Let_def split: if_splits text_file.splits sum.splits)

text \<open>
  C3, as the code has it. When \<open>admin_audit_clear\<close> succeeds (it answers with the one
  message that the log was cleared), the log existed before, the backup file holds the
  text of the log as it was read, which is the log byte for byte when the log has no
  carriage return (reading in text mode turns every carriage return, alone or before a
  line feed, into a line feed), and the live log consists of the header, the entry
  \<open>audit_cleared\<close> that the handler writes and the entry \<open>audit_clear\<close> that \<open>log_event\<close>
  appends after it: two new entries, and nothing of the log from before the clear. No
  other file changes.
\<close>

theorem admin_audit_clear_backup_and_new_log:
  assumes "fst (admin_audit_clear stamp ts ts2 sess fs) =
             Redirect ''/admin'' [Flash ''Audit log cleared (backup created).'' ''success'']"
  shows "\<exists>s. texts fs AUDIT_LOG = Text s
           \<and> texts (snd (admin_audit_clear stamp ts ts2 sess fs)) (backup_name stamp)
               = Text (universal_newlines s)
           \<and> (CR \<notin> set s \<longrightarrow>
                texts (snd (admin_audit_clear stamp ts ts2 sess fs)) (backup_name stamp) = Text s)
           \<and> texts (snd (admin_audit_clear stamp ts ts2 sess fs)) AUDIT_LOG
               = Text (audit_header
                   @ cleared_entry ts (session_user sess) (backup_name stamp)
                   @ ([dq] @ ts2 @ qcq @ session_user sess @ qcq @ ''audit_clear'' @ qcq
                       @ ''/admin/audit/clear'' @ qcq @ ''Backup: '' @ backup_name stamp
                       @ [dq, LF]))
           \<and> (\<forall>p. p \<noteq> backup_name stamp \<and> p \<noteq> AUDIT_LOG \<longrightarrow>
                texts (snd (admin_audit_clear stamp ts ts2 sess fs)) p = texts fs p)
           \<and> frames (snd (admin_audit_clear stamp ts ts2 sess fs)) = frames fs"
proof -
  from admin_audit_clear_success_only[OF assms]
  obtain s where a: "sess_logged_in sess" "sess_role sess = Some ''Administrator''"
    and s: "texts fs AUDIT_LOG = Text s" and b: "texts fs (backup_name stamp) \<noteq> Locked"
    by blast
  note r = admin_audit_clear_goes_through[OF a s b, of ts ts2]
  have 1: "texts (snd (admin_audit_clear stamp ts ts2 sess fs)) (backup_name stamp)
             = Text (universal_newlines s)"
    unfolding r using backup_name_not_log[of stamp] by simp
  have 2: "CR \<notin> set s \<longrightarrow>
             texts (snd (admin_audit_clear stamp ts ts2 sess fs)) (backup_name stamp) = Text s"
    unfolding 1 by (simp add: universal_newlines_no_CR)
  have 3: "texts (snd (admin_audit_clear stamp ts ts2 sess fs)) AUDIT_LOG
               = Text (audit_header
                   @ cleared_entry ts (session_user sess) (backup_name stamp)
                   @ ([dq] @ ts2 @ qcq @ session_user sess @ qcq @ ''audit_clear'' @ qcq
                       @ ''/admin/audit/clear'' @ qcq @ ''Backup: '' @ backup_name stamp
                       @ [dq, LF]))"
    unfolding r by simp
  have 4: "\<forall>p. p \<noteq> backup_name stamp \<and> p \<noteq> AUDIT_LOG \<longrightarrow>
             texts (snd (admin_audit_clear stamp ts ts2 sess fs)) p = texts fs p"
    unfolding r by simp
  have 5: "frames (snd (admin_audit_clear stamp ts ts2 sess fs)) = frames fs"
    unfolding r by simp
  from s 1 2 3 4 5 show ?thesis by blast
qed

theorem admin_audit_clear_backup_and_new_log_witness:
  "fst (admin_audit_clear ''20250101T000000Z'' ''2025-01-01T00:00:00'' ''2025-01-01T00:00:01''
          admin_session (with_log (audit_header @ login_entry)))
     = Redirect ''/admin'' [Flash ''Audit log cleared (backup created).'' ''success'']
   \<and> texts (snd (admin_audit_clear ''20250101T000000Z'' ''2025-01-01T00:00:00''
          ''2025-01-01T00:00:01'' admin_session (with_log (audit_header @ login_entry))))
        (backup_name ''20250101T000000Z'') = Text (audit_header @ login_entry)"
proof -
  let ?fs = "with_log (audit_header @ login_entry)"
  have s: "texts ?fs AUDIT_LOG = Text (audit_header @ login_entry)"
    by (simp add: with_log_def)
  have b: "texts ?fs (backup_name ''20250101T000000Z'') \<noteq> Locked"
    by (simp add: with_log_def fresh_files_def backup_name_def AUDIT_LOG_def)
  have a: "sess_logged_in admin_session" "sess_role admin_session = Some ''Administrator''"
    by (simp_all add: admin_session_def)
  have h: "fst (admin_audit_clear ''20250101T000000Z'' ''2025-01-01T00:00:00''
                  ''2025-01-01T00:00:01'' admin_session ?fs)
             = Redirect ''/admin'' [Flash ''Audit log cleared (backup created).'' ''success'']"
    using admin_audit_clear_goes_through[OF a s b] by simp
  have c: "CR \<notin> set (audit_header @ login_entry)"
    by (simp add: audit_header_def login_entry_def qcq_def dq_def LF_def CR_def)
  from admin_audit_clear_backup_and_new_log[OF h] s c h show ?thesis
    by auto
qed

text \<open>
  The claim as written fails twice. The live log that a successful clear leaves has two
  new entries after the header, not one; and the backup of a log in which a line ends
  with a carriage return and a line feed is not that log byte for byte.
\<close>

theorem admin_audit_clear_two_entries_counterexample:
  "admin_audit_clear ''20250101T000000Z'' ''2025-01-01T00:00:00'' ''2025-01-01T00:00:01''
      admin_session (with_log (audit_header @ login_entry))
     = (Redirect ''/admin'' [Flash ''Audit log cleared (backup created).'' ''success''],
        (with_log (audit_header @ login_entry))\<lparr>texts :=
           (texts (with_log (audit_header @ login_entry)))
             (backup_name ''20250101T000000Z'' := Text (audit_header @ login_entry),
              AUDIT_LOG := Text (audit_header
                @ cleared_entry ''2025-01-01T00:00:00'' ''root'' (backup_name ''20250101T000000Z'')
                @ ([dq] @ ''2025-01-01T00:00:01'' @ qcq @ ''root'' @ qcq @ ''audit_clear'' @ qcq
                    @ ''/admin/audit/clear'' @ qcq @ ''Backup: ''
                    @ backup_name ''20250101T000000Z'' @ [dq, LF])))\<rparr>)
   \<and> readlines (audit_header
        @ cleared_entry ''2025-01-01T00:00:00'' ''root'' (backup_name ''20250101T000000Z'')
        @ ([dq] @ ''2025-01-01T00:00:01'' @ qcq @ ''root'' @ qcq @ ''audit_clear'' @ qcq
            @ ''/admin/audit/clear'' @ qcq @ ''Backup: ''
            @ backup_name ''20250101T000000Z'' @ [dq, LF]))
     = [audit_header,
        cleared_entry ''2025-01-01T00:00:00'' ''root'' (backup_name ''20250101T000000Z''),
        [dq] @ ''2025-01-01T00:00:01'' @ qcq @ ''root'' @ qcq @ ''audit_clear'' @ qcq
            @ ''/admin/audit/clear'' @ qcq @ ''Backup: ''
            @ backup_name ''20250101T000000Z'' @ [dq, LF]]
   \<and> texts (snd (admin_audit_clear ''20250101T000000Z'' ''2025-01-01T00:00:00''
          ''2025-01-01T00:00:01'' admin_session (with_log (audit_header @ [CR, LF]))))
        (backup_name ''20250101T000000Z'') = Text (audit_header @ [LF])
   \<and> audit_header @ [LF] \<noteq> audit_header @ [CR, LF]"
proof -
  have a: "sess_logged_in admin_session" "sess_role admin_session = Some ''Administrator''"
    by (simp_all add: admin_session_def)
  have u: "session_user admin_session = ''root''"
    by (simp add: session_user_def admin_session_def)
  have b: "texts (with_log t) (backup_name ''20250101T000000Z'') \<noteq> Locked" for t
    by (simp add: with_log_def fresh_files_def backup_name_def AUDIT_LOG_def)
  have s: "texts (with_log t) AUDIT_LOG = Text t" for t
    by (simp add: with_log_def)
  have c: "universal_newlines (audit_header @ login_entry) = audit_header @ login_entry"
    by (rule universal_newlines_no_CR)
       (simp add: audit_header_def login_entry_def qcq_def dq_def LF_def CR_def)
  have 1: "admin_audit_clear ''20250101T000000Z'' ''2025-01-01T00:00:00'' ''2025-01-01T00:00:01''
      admin_session (with_log (audit_header @ login_entry))
     = (Redirect ''/admin'' [Flash ''Audit log cleared (backup created).'' ''success''],
        (with_log (audit_header @ login_entry))\<lparr>texts :=
           (texts (with_log (audit_header @ login_entry)))
             (backup_name ''20250101T000000Z'' := Text (audit_header @ login_entry),
              AUDIT_LOG := Text (audit_header
                @ cleared_entry ''2025-01-01T00:00:00'' ''root'' (backup_name ''20250101T000000Z'')
                @ ([dq] @ ''2025-01-01T00:00:01'' @ qcq @ ''root'' @ qcq @ ''audit_clear'' @ qcq
                    @ ''/admin/audit/clear'' @ qcq @ ''Backup: ''
                    @ backup_name ''20250101T000000Z'' @ [dq, LF])))\<rparr>)"
    unfolding admin_audit_clear_goes_through[OF a s b] u c by (rule refl)
  have 2: "readlines (audit_header
        @ cleared_entry ''2025-01-01T00:00:00'' ''root'' (backup_name ''20250101T000000Z'')
        @ ([dq] @ ''2025-01-01T00:00:01'' @ qcq @ ''root'' @ qcq @ ''audit_clear'' @ qcq
            @ ''/admin/audit/clear'' @ qcq @ ''Backup: ''
            @ backup_name ''20250101T000000Z'' @ [dq, LF]))
     = [audit_header,
        cleared_entry ''2025-01-01T00:00:00'' ''root'' (backup_name ''20250101T000000Z''),
        [dq] @ ''2025-01-01T00:00:01'' @ qcq @ ''root'' @ qcq @ ''audit_clear'' @ qcq
            @ ''/admin/audit/clear'' @ qcq @ ''Backup: ''
            @ backup_name ''20250101T000000Z'' @ [dq, LF]]"
    by (simp add: readlines_def audit_header_def cleared_entry_def backup_name_def qcq_def
        dq_def LF_def)
  have n: "universal_newlines (audit_header @ [CR, LF]) = audit_header @ [LF]"
    by (simp add: audit_header_def LF_def CR_def)
  have 3: "texts (snd (admin_audit_clear ''20250101T000000Z'' ''2025-01-01T00:00:00''
          ''2025-01-01T00:00:01'' admin_session (with_log (audit_header @ [CR, LF]))))
        (backup_name ''20250101T000000Z'') = Text (audit_header @ [LF])"
    unfolding admin_audit_clear_goes_through[OF a s b] n
    using backup_name_not_log[of "''20250101T000000Z''"] by simp
  have 4: "audit_header @ [LF] \<noteq> audit_header @ [CR, LF]"
    by simp
  from 1 2 3 4 show ?thesis by blast
qed

section \<open>The share registry\<close>



























end
